theory Spec2Isabelle
  imports Complex_Main
begin

section \<open>JavaScript values used by index.js\<close>

text \<open>
  Strings are character lists. A character of the model is a byte, so it stands for a
  code unit below 256; the keywords and patterns of index.js are ASCII. A value read from
  an object is either \<open>undefined\<close> or a string. A number is either \<open>NaN\<close> or an
  integer: every number that index.js computes from a text comes from \<open>parseInt\<close>, and
  the code only compares it with 20, with 10000 or with \<open>undefined\<close>, so the rounding of
  very long digit strings to doubles does not change any branch.
\<close>

datatype jsval = Undefined | Str string

datatype jsnum = NaN | Num int

datatype fault = TypeError | ReferenceError | ProbeFailure

section \<open>Regular expressions\<close>

text \<open>
  The patterns of index.js use literals, character classes, the dot, grouping,
  alternation, \<open>?\<close> and \<open>+\<close>. They are written here as terms of \<open>regex\<close> and run by
  derivatives. \<open>s.match(p)\<close> is only ever tested for truthiness, so it is modelled by a
  boolean; an unanchored pattern is wrapped by \<open>anywhere\<close>.
\<close>

datatype regex =
    Never
  | Empty
  | OneOf "char list"
  | NoneOf "char list"
  | Cat regex regex
  | Alt regex regex
  | Rep regex

fun nullable :: "regex \<Rightarrow> bool" where
  "nullable Never = False"
| "nullable Empty = True"
| "nullable (OneOf cs) = False"
| "nullable (NoneOf cs) = False"
| "nullable (Cat r s) = (nullable r \<and> nullable s)"
| "nullable (Alt r s) = (nullable r \<or> nullable s)"
| "nullable (Rep r) = True"

fun deriv :: "char \<Rightarrow> regex \<Rightarrow> regex" where
  "deriv c Never = Never"
| "deriv c Empty = Never"
| "deriv c (OneOf cs) = (if c \<in> set cs then Empty else Never)"
| "deriv c (NoneOf cs) = (if c \<in> set cs then Never else Empty)"
| "deriv c (Cat r s) =
     (if nullable r then Alt (Cat (deriv c r) s) (deriv c s) else Cat (deriv c r) s)"
| "deriv c (Alt r s) = Alt (deriv c r) (deriv c s)"
| "deriv c (Rep r) = Cat (deriv c r) (Rep r)"

fun matches :: "regex \<Rightarrow> string \<Rightarrow> bool" where
  "matches r [] = nullable r"
| "matches r (c # cs) = matches (deriv c r) cs"

definition lit :: "string \<Rightarrow> regex" where
  "lit s = foldr (\<lambda>c r. Cat (OneOf [c]) r) s Empty"

definition oneOrMore :: "regex \<Rightarrow> regex" where
  "oneOrMore r = Cat r (Rep r)"

definition optional :: "regex \<Rightarrow> regex" where
  "optional r = Alt r Empty"

definition digit :: regex where
  "digit = OneOf ''0123456789''"

text \<open>The dot matches every character but a line terminator.\<close>

definition dot :: regex where
  "dot = NoneOf [CHR 0x0A, CHR 0x0D]"

definition anything :: regex where
  "anything = Rep (NoneOf [])"

definition anywhere :: "regex \<Rightarrow> regex" where
  "anywhere r = Cat anything (Cat r anything)"

text \<open>\<open>[0-9]+(\.[0-9]+)?\<close>, shared by most patterns.\<close>

definition decimal :: regex where
  "decimal = Cat (oneOrMore digit) (optional (Cat (lit ''.'') (oneOrMore digit)))"

section \<open>parseInt\<close>

text \<open>
  \<open>parseInt(text)\<close> with no radix: leading white space is skipped, a sign is read, a
  \<open>0x\<close> or \<open>0X\<close> prefix selects radix 16, and the longest run of digits of the radix
  is converted. No digit gives \<open>NaN\<close>.
\<close>

definition isWhiteSpace :: "char \<Rightarrow> bool" where
  "isWhiteSpace c = (c \<in> set [CHR 0x09, CHR 0x0A, CHR 0x0B, CHR 0x0C, CHR 0x0D, CHR 0x20, CHR 0xA0])"

definition digitValue :: "char \<Rightarrow> nat option" where
  "digitValue c =
     map_of [(CHR ''0'', 0), (CHR ''1'', 1), (CHR ''2'', 2), (CHR ''3'', 3), (CHR ''4'', 4),
             (CHR ''5'', 5), (CHR ''6'', 6), (CHR ''7'', 7), (CHR ''8'', 8), (CHR ''9'', 9),
             (CHR ''a'', 10), (CHR ''b'', 11), (CHR ''c'', 12), (CHR ''d'', 13),
             (CHR ''e'', 14), (CHR ''f'', 15), (CHR ''A'', 10), (CHR ''B'', 11),
             (CHR ''C'', 12), (CHR ''D'', 13), (CHR ''E'', 14), (CHR ''F'', 15)] c"

definition isDigitOf :: "nat \<Rightarrow> char \<Rightarrow> bool" where
  "isDigitOf radix c = (case digitValue c of None \<Rightarrow> False | Some v \<Rightarrow> v < radix)"

definition digitsValue :: "nat \<Rightarrow> string \<Rightarrow> int" where
  "digitsValue radix ds =
     foldl (\<lambda>acc c. acc * int radix + (case digitValue c of None \<Rightarrow> 0 | Some v \<Rightarrow> int v))
       0 ds"

definition parseInt :: "string \<Rightarrow> jsnum" where
  "parseInt text =
     (let s = dropWhile isWhiteSpace text;
          negative = (take 1 s = ''-'');
          s = (if take 1 s = ''-'' \<or> take 1 s = ''+'' then drop 1 s else s);
          hex = (take 2 s = ''0x'' \<or> take 2 s = ''0X'');
          radix = (if hex then 16 else 10);
          s = (if hex then drop 2 s else s);
          ds = takeWhile (isDigitOf radix) s
      in if ds = [] then NaN
         else Num ((if negative then - 1 else 1) * digitsValue radix ds))"

section \<open>Constraint parsers\<close>

text \<open>
  \<open>prosodyRate(text)\<close> is only tested for truthiness by its caller. The keyword values
  0.3 .. 2 are all truthy; otherwise the result is \<open>rate / 100.0\<close> for a rate that is a
  number (not \<open>NaN\<close>, which is falsy) and not below 20, and \<open>undefined\<close> in every other
  case. The model returns that truth value.
\<close>

definition prosodyRate :: "string \<Rightarrow> bool" where
  "prosodyRate text =
     (if text \<in> set [''x-slow'', ''slow'', ''medium'', ''fast'', ''x-fast''] then True
      else if matches (anywhere (Cat (oneOrMore digit) (lit ''%''))) text then
        (case parseInt text of NaN \<Rightarrow> False | Num rate \<Rightarrow> \<not> rate < 20 \<and> rate \<noteq> 0)
      else False)"

definition MAX_SAFE_INTEGER :: int where
  "MAX_SAFE_INTEGER = 2 ^ 53 - 1"

text \<open>
  \<open>maximum\<close> is \<open>None\<close> when the caller passes no second argument; \<open>if (maximum)\<close>
  is the truthiness of a number. The result \<open>None\<close> is \<open>undefined\<close>.
\<close>

definition truthy :: "int option \<Rightarrow> bool" where
  "truthy maximum = (case maximum of None \<Rightarrow> False | Some m \<Rightarrow> m \<noteq> 0)"

text \<open>\<open>time <= maximum\<close>: false when \<open>time\<close> is \<open>NaN\<close>.\<close>

definition num_le :: "jsnum \<Rightarrow> int \<Rightarrow> bool" where
  "num_le time m = (case time of NaN \<Rightarrow> False | Num t \<Rightarrow> t \<le> m)"

definition num_times :: "int \<Rightarrow> jsnum \<Rightarrow> jsnum" where
  "num_times k n = (case n of NaN \<Rightarrow> NaN | Num t \<Rightarrow> Num (k * t))"

text \<open>The tail of \<open>readDuration\<close>, after \<open>time\<close> has been assigned.\<close>

definition capped :: "jsnum \<Rightarrow> int option \<Rightarrow> jsnum option" where
  "capped time maximum =
     (case maximum of
        None \<Rightarrow> Some time
      | Some m \<Rightarrow> if truthy maximum then (if num_le time m then Some time else None)
                  else Some time)"

definition readDuration :: "string \<Rightarrow> int option \<Rightarrow> jsnum option" where
  "readDuration text maximum =
     (if \<not> truthy maximum \<and> text = ''infinity'' then capped (Num MAX_SAFE_INTEGER) maximum
      else if matches (anywhere (Cat (oneOrMore digit) (lit ''ms''))) text then
        capped (parseInt text) maximum
      else if matches (Cat decimal (lit ''s'')) text then
        capped (num_times 1000 (parseInt text)) maximum
      else None)"

section \<open>Elements and error records\<close>

text \<open>
  An element is a node of the tree that the XML adapter returns. index.js reads three of
  its properties: \<open>name\<close> (absent on text and comment nodes), \<open>attributes\<close> (absent
  when the tag carries none, which is why the code writes \<open>element.attributes || {}\<close>)
  and \<open>elements\<close> (absent on a node without children). The attribute object is an
  association list in insertion order, the order of \<open>Object.keys\<close>.
\<close>

datatype element =
  Element (name: "string option")
          (attributes: "(string \<times> string) list option")
          (elements: "element list option")

text \<open>
  An error record \<open>{type, tag, attribute, value, detail}\<close>; the fields \<open>attr\<close> and
  \<open>val\<close> are its properties \<open>attribute\<close> and \<open>value\<close>. A property that the object
  does not have is \<open>None\<close>; a property that is present holds a value, which may be
  \<open>Undefined\<close>.
\<close>

record error =
  type :: string
  tag :: "jsval option"
  attr :: "jsval option"
  val :: "jsval option"
  detail :: "string option"

definition plain :: "string \<Rightarrow> error" where
  "plain t = \<lparr>type = t, tag = None, attr = None, val = None, detail = None\<rparr>"

definition nameOf :: "element \<Rightarrow> jsval" where
  "nameOf element = (case name element of None \<Rightarrow> Undefined | Some n \<Rightarrow> Str n)"

text \<open>
  \<open>element.attributes[k]\<close>: reading a property of \<open>undefined\<close> raises a TypeError; a
  key the object does not have reads as \<open>undefined\<close>.
\<close>

definition attributeOf :: "element \<Rightarrow> string \<Rightarrow> fault + jsval" where
  "attributeOf element k =
     (case attributes element of
        None \<Rightarrow> Inl TypeError
      | Some a \<Rightarrow> Inr (case map_of a k of None \<Rightarrow> Undefined | Some v \<Rightarrow> Str v))"

definition createTagError :: "element \<Rightarrow> string \<Rightarrow> bool \<Rightarrow> fault + error" where
  "createTagError element attribute undefinedValue =
     (if undefinedValue then
        Inr \<lparr>type = ''tag'', tag = Some (nameOf element), attr = Some (Str attribute),
             val = Some Undefined, detail = None\<rparr>
      else
        (case attributeOf element attribute of
           Inl f \<Rightarrow> Inl f
         | Inr v \<Rightarrow>
             Inr \<lparr>type = ''tag'', tag = Some (nameOf element), attr = Some (Str attribute),
                  val = Some v, detail = None\<rparr>))"

section \<open>The shared error array and exceptions\<close>

text \<open>
  \<open>checkForValidTags\<close> pushes onto the caller's \<open>errors\<close> array and may raise. Its
  model takes the array and returns it, either after a normal return or together with the
  fault that was raised: what had been pushed before the fault stays in the array.
\<close>

datatype outcome = Normal "error list" | Thrown fault "error list"

definition push :: "fault + error \<Rightarrow> error list \<Rightarrow> outcome" where
  "push e errors = (case e of Inl f \<Rightarrow> Thrown f errors | Inr x \<Rightarrow> Normal (errors @ [x]))"

text \<open>\<open>if (cond) { errors.push(e); }\<close>, where evaluating \<open>cond\<close> may raise.\<close>

definition pushIf :: "fault + bool \<Rightarrow> fault + error \<Rightarrow> error list \<Rightarrow> outcome" where
  "pushIf cond e errors =
     (case cond of
        Inl f \<Rightarrow> Thrown f errors
      | Inr b \<Rightarrow> if b then push e errors else Normal errors)"

fun forEach :: "'a list \<Rightarrow> ('a \<Rightarrow> error list \<Rightarrow> outcome) \<Rightarrow> error list \<Rightarrow> outcome" where
  "forEach [] f errors = Normal errors"
| "forEach (x # xs) f errors =
     (case f x errors of
        Normal errors' \<Rightarrow> forEach xs f errors'
      | Thrown t errors' \<Rightarrow> Thrown t errors')"

lemma forEach_cong [fundef_cong]:
  "xs = ys \<Longrightarrow> (\<And>x e. x \<in> set ys \<Longrightarrow> f x e = g x e) \<Longrightarrow> forEach xs f errors = forEach ys g errors"
  by (induction ys arbitrary: xs errors) (auto split: outcome.splits)

text \<open>\<open>list.indexOf(v) === -1\<close> for a list of strings.\<close>

definition notIn :: "string list \<Rightarrow> jsval \<Rightarrow> bool" where
  "notIn xs v = (case v of Undefined \<Rightarrow> True | Str s \<Rightarrow> s \<notin> set xs)"

text \<open>\<open>list.indexOf(element.attributes[k]) === -1\<close>.\<close>

definition valueNotIn :: "string list \<Rightarrow> element \<Rightarrow> string \<Rightarrow> fault + bool" where
  "valueNotIn xs element k =
     (case attributeOf element k of Inl f \<Rightarrow> Inl f | Inr v \<Rightarrow> Inr (notIn xs v))"

text \<open>\<open>!element.attributes[k].match(re)\<close>: calling \<open>match\<close> on \<open>undefined\<close> raises.\<close>

definition valueNoMatch :: "regex \<Rightarrow> element \<Rightarrow> string \<Rightarrow> fault + bool" where
  "valueNoMatch re element k =
     (case attributeOf element k of
        Inl f \<Rightarrow> Inl f
      | Inr Undefined \<Rightarrow> Inl TypeError
      | Inr (Str s) \<Rightarrow> Inr (\<not> matches re s))"

text \<open>
  \<open>readDuration(element.attributes[k], maximum) === undefined\<close>; on \<open>undefined\<close>
  the call of \<open>text.match\<close> inside \<open>readDuration\<close> raises.
\<close>

definition noDuration :: "element \<Rightarrow> string \<Rightarrow> int option \<Rightarrow> fault + bool" where
  "noDuration element k maximum =
     (case attributeOf element k of
        Inl f \<Rightarrow> Inl f
      | Inr Undefined \<Rightarrow> Inl TypeError
      | Inr (Str s) \<Rightarrow> Inr (readDuration s maximum = None))"

section \<open>Attribute rules, tag by tag\<close>

text \<open>
  Each definition below is the callback that the matching \<open>case\<close> of
  \<open>checkForValidTags\<close> passes to \<open>attributes.forEach\<close>. The patterns are named after
  what they accept.
\<close>

text \<open>\<open>/^(\+)?[0-9]+(\.[0-9]+)?$/\<close>\<close>

definition countPattern :: regex where
  "countPattern = Cat (optional (lit ''+'')) decimal"

text \<open>\<open>/^[+-][0-9]+(\.[0-9]+)?dB$/\<close>\<close>

definition dBPattern :: regex where
  "dBPattern = Cat (OneOf ''+-'') (Cat decimal (lit ''dB''))"

text \<open>\<open>(h|min|s|ms)\<close>\<close>

definition unitPattern :: regex where
  "unitPattern = Alt (lit ''h'') (Alt (lit ''min'') (Alt (lit ''s'') (lit ''ms'')))"

text \<open>\<open>/^[+-]?[0-9]+(\.[0-9]+)?(h|min|s|ms)$/\<close>\<close>

definition offsetPattern :: regex where
  "offsetPattern = Cat (optional (OneOf ''+-'')) (Cat decimal unitPattern)"

text \<open>\<open>/^.\.(begin|end)[+-][0-9]+(\.[0-9]+)?(h|min|s|ms)$/\<close>\<close>

definition relativePattern :: regex where
  "relativePattern =
     Cat dot (Cat (lit ''.'') (Cat (Alt (lit ''begin'') (lit ''end''))
       (Cat (OneOf ''+-'') (Cat decimal unitPattern))))"

text \<open>
  \<open>/^([-_#]|\p{L}|\p{D})+$/\<close>: the pattern has no \<open>u\<close> flag, so \<open>\p\<close> is the letter
  \<open>p\<close> and the braces are literal.
\<close>

definition idPattern :: regex where
  "idPattern = oneOrMore (Alt (OneOf ''-_#'') (Alt (lit ''p{L}'') (lit ''p{D}'')))"

text \<open>\<open>/^\+[0-9]+(\.[0-9]+)?%$/\<close> and \<open>/^\-[0-9]+(\.[0-9]+)?%$/\<close>\<close>

definition percentPattern :: "string \<Rightarrow> regex" where
  "percentPattern sign = Cat (lit sign) (Cat decimal (lit ''%''))"

definition amazonEffectAttribute :: "element \<Rightarrow> string \<Rightarrow> error list \<Rightarrow> outcome" where
  "amazonEffectAttribute element attribute errors =
     (if attribute = ''name'' then
        pushIf (valueNotIn [''whispered''] element ''name'')
          (createTagError element attribute False) errors
      else push (createTagError element attribute True) errors)"

definition audioAttribute :: "string \<Rightarrow> element \<Rightarrow> string \<Rightarrow> error list \<Rightarrow> outcome" where
  "audioAttribute platform element attribute errors =
     (if platform = ''google'' \<and> attribute = ''clipBegin'' then
        pushIf (noDuration element ''clipBegin'' None) (createTagError element attribute False) errors
      else if platform = ''google'' \<and> attribute = ''clipEnd'' then
        pushIf (noDuration element ''clipEnd'' None) (createTagError element attribute False) errors
      else if platform = ''google'' \<and> attribute = ''speed'' then
        pushIf (valueNoMatch countPattern element ''speed'')
          (createTagError element attribute False) errors
      else if platform = ''google'' \<and> attribute = ''repeatCount'' then
        pushIf (valueNoMatch countPattern element ''repeatCount'')
          (createTagError element attribute False) errors
      else if platform = ''google'' \<and> attribute = ''repeatDur'' then
        pushIf (noDuration element ''repeatDur'' None) (createTagError element attribute False) errors
      else if platform = ''google'' \<and> attribute = ''soundLevel'' then
        pushIf (valueNoMatch dBPattern element ''soundLevel'')
          (createTagError element attribute False) errors
      else if attribute \<noteq> ''src'' then push (createTagError element attribute True) errors
      else Normal errors)"

definition breakAttribute :: "element \<Rightarrow> string \<Rightarrow> error list \<Rightarrow> outcome" where
  "breakAttribute element attribute errors =
     (if attribute = ''strength'' then
        pushIf (valueNotIn [''none'', ''x-weak'', ''weak'', ''medium'', ''strong'', ''x-strong'']
                  element ''strength'')
          (createTagError element attribute False) errors
      else if attribute = ''time'' then
        pushIf (noDuration element ''time'' (Some 10000))
          (createTagError element attribute False) errors
      else push (createTagError element attribute True) errors)"

text \<open>
  In the \<open>level\<close> branch the inner test is
  \<open>(platform !== 'google') || (element.attributes.level !== 'none')\<close>.
\<close>

definition emphasisAttribute :: "string \<Rightarrow> element \<Rightarrow> string \<Rightarrow> error list \<Rightarrow> outcome" where
  "emphasisAttribute platform element attribute errors =
     (if attribute = ''level'' then
        (case valueNotIn [''strong'', ''moderate'', ''reduced''] element ''level'' of
           Inl f \<Rightarrow> Thrown f errors
         | Inr unlisted \<Rightarrow>
             if unlisted then
               pushIf (if platform = ''google'' then valueNotIn [''none''] element ''level''
                       else Inr True)
                 (createTagError element attribute False) errors
             else Normal errors)
      else push (createTagError element attribute True) errors)"

definition langAttribute :: "element \<Rightarrow> string \<Rightarrow> error list \<Rightarrow> outcome" where
  "langAttribute element attribute errors =
     (if attribute = ''xml:lang'' then
        pushIf (valueNotIn [''en-US'', ''en-GB'', ''en-IN'', ''en-AU'', ''en-CA'', ''de-DE'',
                            ''es-ES'', ''it-IT'', ''ja-JP'', ''fr-FR''] element ''xml:lang'')
          (createTagError element attribute False) errors
      else push (createTagError element attribute True) errors)"

text \<open>\<open>!a.match(p) && !a.match(q)\<close>: the second match runs only when the first fails.\<close>

definition neitherMatch :: "regex \<Rightarrow> regex \<Rightarrow> element \<Rightarrow> string \<Rightarrow> fault + bool" where
  "neitherMatch p q element k =
     (case valueNoMatch p element k of
        Inl f \<Rightarrow> Inl f
      | Inr b \<Rightarrow> if b then valueNoMatch q element k else Inr False)"

definition mediaAttribute :: "element \<Rightarrow> string \<Rightarrow> error list \<Rightarrow> outcome" where
  "mediaAttribute element attribute errors =
     (if attribute = ''xml:id'' then
        pushIf (valueNoMatch idPattern element ''xml:id'')
          (createTagError element attribute False) errors
      else if attribute = ''begin'' then
        pushIf (neitherMatch offsetPattern relativePattern element ''begin'')
          (createTagError element attribute False) errors
      else if attribute = ''end'' then
        pushIf (neitherMatch offsetPattern relativePattern element ''end'')
          (createTagError element attribute False) errors
      else if attribute = ''repeatCount'' then
        pushIf (valueNoMatch countPattern element ''repeatCount'')
          (createTagError element attribute False) errors
      else if attribute = ''repeatDur'' then
        pushIf (noDuration element ''repeatDur'' None) (createTagError element attribute False) errors
      else if attribute = ''soundLevel'' then
        pushIf (valueNoMatch dBPattern element ''soundLevel'')
          (createTagError element attribute False) errors
      else if attribute = ''fadeInDur'' then
        pushIf (noDuration element ''fadeInDur'' None) (createTagError element attribute False) errors
      else if attribute = ''fadeOutDur'' then
        pushIf (noDuration element ''fadeOutDur'' None) (createTagError element attribute False) errors
      else push (createTagError element attribute True) errors)"

text \<open>The callback of \<open>p\<close> and of \<open>s\<close>: no attribute is allowed.\<close>

definition noAttribute :: "element \<Rightarrow> string \<Rightarrow> error list \<Rightarrow> outcome" where
  "noAttribute element attribute errors = push (createTagError element attribute True) errors"

text \<open>
  The callback of \<open>par\<close> and \<open>seq\<close> runs over the children. It calls
  \<open>createTagError(element, attribute)\<close>, but no variable \<open>attribute\<close> is in scope
  there (the other cases bind it as the parameter of their own callbacks, and the module
  declares none): evaluating the identifier raises a ReferenceError before
  \<open>createTagError\<close> is entered.
\<close>

definition attributeUnbound :: "fault + string" where
  "attributeUnbound = Inl ReferenceError"

definition parSeqChild :: "element \<Rightarrow> element \<Rightarrow> error list \<Rightarrow> outcome" where
  "parSeqChild element item errors =
     (if notIn [''par'', ''seq'', ''media''] (nameOf item) then
        (case attributeUnbound of
           Inl f \<Rightarrow> Thrown f errors
         | Inr attribute \<Rightarrow>
             (case createTagError element attribute False of
                Inl f \<Rightarrow> Thrown f errors
              | Inr error \<Rightarrow> Normal (errors @ [error\<lparr>val := Some (nameOf item)\<rparr>])))
      else Normal errors)"

definition phonemeAttribute :: "element \<Rightarrow> string \<Rightarrow> error list \<Rightarrow> outcome" where
  "phonemeAttribute element attribute errors =
     (if attribute = ''alphabet'' then
        pushIf (valueNotIn [''ipa'', ''x-sampa''] element ''alphabet'')
          (createTagError element attribute False) errors
      else if attribute \<noteq> ''ph'' then push (createTagError element attribute True) errors
      else Normal errors)"

text \<open>\<open>!prosodyRate(element.attributes.rate)\<close>\<close>

definition noRate :: "element \<Rightarrow> fault + bool" where
  "noRate element =
     (case attributeOf element ''rate'' of
        Inl f \<Rightarrow> Inl f
      | Inr Undefined \<Rightarrow> Inl TypeError
      | Inr (Str s) \<Rightarrow> Inr (\<not> prosodyRate s))"

text \<open>
  The pitch test compares \<open>parseFloat(pitch)\<close> with 50 and with -33.3. The double that
  \<open>parseFloat\<close> returns is a parameter of the model; for a double, being below the
  literal \<open>-33.3\<close> and being below the real number -33.3 are the same, since the literal
  denotes the nearest double, which lies above it.
\<close>

definition badPitch :: "(string \<Rightarrow> real) \<Rightarrow> element \<Rightarrow> fault + bool" where
  "badPitch parseFloat element =
     (case attributeOf element ''pitch'' of
        Inl f \<Rightarrow> Inl f
      | Inr v \<Rightarrow>
          if notIn [''x-low'', ''low'', ''medium'', ''high'', ''x-high''] v then
            (case v of
               Undefined \<Rightarrow> Inl TypeError
             | Str s \<Rightarrow>
                 if matches (percentPattern ''+'') s then Inr (parseFloat s > 50)
                 else if matches (percentPattern ''-'') s then Inr (parseFloat s < - 33.3)
                 else Inr True)
          else Inr False)"

definition badVolume :: "element \<Rightarrow> fault + bool" where
  "badVolume element =
     (case valueNotIn [''silent'', ''x-soft'', ''soft'', ''medium'', ''loud'', ''x-loud'']
             element ''volume'' of
        Inl f \<Rightarrow> Inl f
      | Inr unlisted \<Rightarrow> if unlisted then valueNoMatch dBPattern element ''volume'' else Inr False)"

definition prosodyAttribute ::
  "(string \<Rightarrow> real) \<Rightarrow> element \<Rightarrow> string \<Rightarrow> error list \<Rightarrow> outcome" where
  "prosodyAttribute parseFloat element attribute errors =
     (if attribute = ''rate'' then
        pushIf (noRate element) (createTagError element attribute False) errors
      else if attribute = ''pitch'' then
        pushIf (badPitch parseFloat element) (createTagError element attribute False) errors
      else if attribute = ''volume'' then
        pushIf (badVolume element) (createTagError element attribute False) errors
      else push (createTagError element attribute True) errors)"

text \<open>
  The platform test of \<open>interpret-as\<close> is written
  \<open>list.indexOf(element.attributes['interpret-as'] !== -1)\<close>: the argument of
  \<open>indexOf\<close> is the boolean result of the comparison, not the attribute value.
  \<open>indexOf\<close> compares with \<open>===\<close>, so a boolean is found in no list of strings and
  the call returns -1; a non-zero number is truthy.
\<close>

definition indexOfBoolean :: "string list \<Rightarrow> bool \<Rightarrow> int" where
  "indexOfBoolean xs b = - 1"

text \<open>\<open>v !== -1\<close> for a string or \<open>undefined\<close>: never equal to a number.\<close>

definition differsFromMinusOne :: "jsval \<Rightarrow> bool" where
  "differsFromMinusOne v = True"

definition supported :: "string \<Rightarrow> jsval \<Rightarrow> bool" where
  "supported platform v =
     (if platform = ''amazon'' \<and>
         indexOfBoolean [''number'', ''digits'', ''address'', ''interjection'']
           (differsFromMinusOne v) \<noteq> 0
      then True
      else if platform = ''google'' \<and>
         indexOfBoolean [''bleep'', ''verbatim''] (differsFromMinusOne v) \<noteq> 0
      then True
      else False)"

definition badInterpretAs :: "string \<Rightarrow> element \<Rightarrow> fault + bool" where
  "badInterpretAs platform element =
     (case attributeOf element ''interpret-as'' of
        Inl f \<Rightarrow> Inl f
      | Inr v \<Rightarrow>
          if notIn [''characters'', ''spell-out'', ''cardinal'', ''ordinal'', ''fraction'',
                    ''unit'', ''date'', ''time'', ''telephone'', ''expletive''] v
          then Inr (\<not> supported platform v)
          else Inr False)"

definition sayAsAttribute :: "string \<Rightarrow> element \<Rightarrow> string \<Rightarrow> error list \<Rightarrow> outcome" where
  "sayAsAttribute platform element attribute errors =
     (if attribute = ''interpret-as'' then
        pushIf (badInterpretAs platform element) (createTagError element attribute False) errors
      else if attribute = ''format'' then
        pushIf (valueNotIn [''mdy'', ''dmy'', ''ymd'', ''md'', ''dm'', ''ym'', ''my'', ''d'',
                            ''m'', ''y''] element ''format'')
          (createTagError element attribute False) errors
      else if platform = ''google'' \<and> attribute = ''detail'' then
        pushIf (valueNotIn [''1'', ''2''] element ''detail'')
          (createTagError element attribute False) errors
      else push (createTagError element attribute True) errors)"

definition subAttribute :: "element \<Rightarrow> string \<Rightarrow> error list \<Rightarrow> outcome" where
  "subAttribute element attribute errors =
     (if attribute \<noteq> ''alias'' then push (createTagError element attribute True) errors
      else Normal errors)"

definition voiceAttribute :: "element \<Rightarrow> string \<Rightarrow> error list \<Rightarrow> outcome" where
  "voiceAttribute element attribute errors =
     (if attribute = ''name'' then
        pushIf (valueNotIn [''Ivy'', ''Joanna'', ''Joey'', ''Justin'', ''Kendra'', ''Kimberly'',
                  ''Matthew'', ''Salli'', ''Nicole'', ''Russell'', ''Amy'', ''Brian'', ''Emma'',
                  ''Aditi'', ''Raveena'', ''Hans'', ''Marlene'', ''Vicki'', ''Conchita'',
                  ''Enrique'', ''Carla'', ''Giorgio'', ''Mizuki'', ''Takumi'', ''Celine'',
                  ''Lea'', ''Mathieu''] element ''name'')
          (createTagError element attribute False) errors
      else push (createTagError element attribute True) errors)"

definition wAttribute :: "element \<Rightarrow> string \<Rightarrow> error list \<Rightarrow> outcome" where
  "wAttribute element attribute errors =
     (if attribute = ''role'' then
        pushIf (valueNotIn [''amazon:VB'', ''amazon:VBD'', ''amazon:NN'', ''amazon:SENSE_1'']
                  element ''role'')
          (createTagError element attribute False) errors
      else push (createTagError element attribute True) errors)"

section \<open>checkForValidTags\<close>

definition validTags :: "string list" where
  "validTags = [''audio'', ''break'', ''emphasis'', ''p'', ''prosody'', ''s'', ''say-as'',
                ''speak'', ''sub'']"

definition validAmazonTags :: "string list" where
  "validAmazonTags = [''amazon:effect'', ''lang'', ''phoneme'', ''voice'', ''w'']"

definition validGoogleTags :: "string list" where
  "validGoogleTags = [''par'', ''seq'', ''media'']"

text \<open>\<open>Object.keys(element.attributes || {})\<close>\<close>

definition attributeNames :: "element \<Rightarrow> string list" where
  "attributeNames element = (case attributes element of None \<Rightarrow> [] | Some a \<Rightarrow> map fst a)"

text \<open>
  \<open>if (attributes.length === 0) { errors.push(createTagError(element, 'none')); }\<close>,
  run after the loop over the attributes.
\<close>

definition required :: "element \<Rightarrow> outcome \<Rightarrow> outcome" where
  "required element looped =
     (case looped of
        Thrown f errors \<Rightarrow> Thrown f errors
      | Normal errors \<Rightarrow>
          if attributeNames element = [] then push (createTagError element ''none'' False) errors
          else Normal errors)"

text \<open>The \<open>switch (element.name)\<close> statement, for a tag name \<open>n\<close> that is legal.\<close>

definition checkAttributes ::
  "(string \<Rightarrow> real) \<Rightarrow> error list \<Rightarrow> element \<Rightarrow> string \<Rightarrow> string \<Rightarrow> outcome" where
  "checkAttributes parseFloat errors element platform n =
     (if n = ''amazon:effect'' then
        required element (forEach (attributeNames element) (amazonEffectAttribute element) errors)
      else if n = ''audio'' then
        required element (forEach (attributeNames element) (audioAttribute platform element) errors)
      else if n = ''break'' then
        forEach (attributeNames element) (breakAttribute element) errors
      else if n = ''emphasis'' then
        required element
          (forEach (attributeNames element) (emphasisAttribute platform element) errors)
      else if n = ''lang'' then
        required element (forEach (attributeNames element) (langAttribute element) errors)
      else if n = ''media'' then
        forEach (attributeNames element) (mediaAttribute element) errors
      else if n = ''p'' then
        forEach (attributeNames element) (noAttribute element) errors
      else if n = ''par'' \<or> n = ''seq'' then
        (case elements element of
           None \<Rightarrow> Normal errors
         | Some items \<Rightarrow> forEach items (parSeqChild element) errors)
      else if n = ''phoneme'' then
        forEach (attributeNames element) (phonemeAttribute element) errors
      else if n = ''prosody'' then
        forEach (attributeNames element) (prosodyAttribute parseFloat element) errors
      else if n = ''s'' then
        forEach (attributeNames element) (noAttribute element) errors
      else if n = ''say-as'' then
        forEach (attributeNames element) (sayAsAttribute platform element) errors
      else if n = ''sub'' then
        forEach (attributeNames element) (subAttribute element) errors
      else if n = ''voice'' then
        forEach (attributeNames element) (voiceAttribute element) errors
      else if n = ''w'' then
        forEach (attributeNames element) (wAttribute element) errors
      else Normal errors)"

text \<open>
  The block \<open>if (element.name) { ... }\<close>: an absent or empty name is falsy; an illegal tag
  gets the error \<open>{type: 'tag', tag: element.name}\<close> and no attribute check.
\<close>

definition checkTag ::
  "(string \<Rightarrow> real) \<Rightarrow> error list \<Rightarrow> element \<Rightarrow> string \<Rightarrow> outcome" where
  "checkTag parseFloat errors element platform =
     (case name element of
        None \<Rightarrow> Normal errors
      | Some n \<Rightarrow>
          if n = [] then Normal errors
          else if n \<notin> set validTags \<and>
                  \<not> ((platform = ''amazon'' \<and> n \<in> set validAmazonTags) \<or>
                     (platform = ''google'' \<and> n \<in> set validGoogleTags))
          then Normal (errors @ [(plain ''tag'')\<lparr>tag := Some (Str n)\<rparr>])
          else checkAttributes parseFloat errors element platform n)"

fun checkForValidTags ::
  "(string \<Rightarrow> real) \<Rightarrow> error list \<Rightarrow> element \<Rightarrow> string \<Rightarrow> outcome" where
  "checkForValidTags parseFloat errors (Element n a es) platform =
     (case checkTag parseFloat errors (Element n a es) platform of
        Thrown f errors' \<Rightarrow> Thrown f errors'
      | Normal errors' \<Rightarrow>
          (case es of
             None \<Rightarrow> Normal errors'
           | Some items \<Rightarrow>
               forEach items (\<lambda>item errors''. checkForValidTags parseFloat errors'' item platform)
                 errors'))"

section \<open>getAudioFiles\<close>

text \<open>
  \<open>files = files.concat(f(item))\<close> over a list; the first call that raises ends the loop.
\<close>

fun concatEach :: "('a \<Rightarrow> fault + string list) \<Rightarrow> 'a list \<Rightarrow> string list \<Rightarrow> fault + string list" where
  "concatEach f [] files = Inr files"
| "concatEach f (x # xs) files =
     (case f x of Inl t \<Rightarrow> Inl t | Inr found \<Rightarrow> concatEach f xs (files @ found))"

lemma concatEach_cong [fundef_cong]:
  "xs = ys \<Longrightarrow> (\<And>x. x \<in> set ys \<Longrightarrow> f x = g x) \<Longrightarrow> concatEach f xs files = concatEach g ys files"
  by (induction ys arbitrary: xs files) (auto split: sum.splits)

text \<open>
  An element with a child list is only descended into; the test for \<open>audio\<close> is the
  \<open>else\<close> branch. \<open>element.attributes.src\<close> raises when the element has no attribute
  object, and an empty \<open>src\<close> is falsy.
\<close>

fun getAudioFiles :: "element \<Rightarrow> fault + string list" where
  "getAudioFiles (Element n a es) =
     (case es of
        Some items \<Rightarrow> concatEach getAudioFiles items []
      | None \<Rightarrow>
          if n = Some ''audio'' then
            (case a of
               None \<Rightarrow> Inl TypeError
             | Some attrs \<Rightarrow>
                 (case map_of attrs ''src'' of
                    None \<Rightarrow> Inr []
                  | Some src \<Rightarrow> if src = [] then Inr [] else Inr [src]))
          else Inr [])"

section \<open>Numbers read from a text\<close>

text \<open>
  \<open>stream.bit_rate != 48000\<close> and \<open>stream.duration > 240\<close> compare a text with a
  number, so the text is converted as \<open>Number(text)\<close> does: white space is trimmed at
  both ends; the empty text is 0; \<open>Infinity\<close> may carry a sign; \<open>0x\<close>, \<open>0o\<close> and
  \<open>0b\<close> start an unsigned integer in radix 16, 8 and 2; everything else must be a
  decimal literal (digits with an optional fraction, or a fraction alone, and an optional
  exponent), with an optional sign, or the result is \<open>NaN\<close>. \<open>Decimal m e\<close> is the
  exact value \<open>m * 10^e\<close> that the text denotes, before it is rounded to a double.
\<close>

datatype number = NotANumber | PlusInfinity | MinusInfinity | Decimal int int

definition allDigits :: "nat \<Rightarrow> string \<Rightarrow> bool" where
  "allDigits radix ds = (ds \<noteq> [] \<and> list_all (isDigitOf radix) ds)"

text \<open>A decimal literal without sign: \<open>digits\<close>, \<open>digits.\<close>, \<open>digits.digits\<close> or
  \<open>.digits\<close>, then an optional exponent \<open>e\<close> or \<open>E\<close> with an optional sign.\<close>

definition unsignedDecimal :: "string \<Rightarrow> number" where
  "unsignedDecimal s =
     (let mantissa = takeWhile (\<lambda>c. c \<notin> set ''eE'') s;
          exponent = dropWhile (\<lambda>c. c \<notin> set ''eE'') s;
          whole = takeWhile (\<lambda>c. c \<noteq> CHR ''.'') mantissa;
          fraction = drop 1 (dropWhile (\<lambda>c. c \<noteq> CHR ''.'') mantissa);
          power = drop 1 exponent;
          powerDigits = (if take 1 power = ''-'' \<or> take 1 power = ''+'' then drop 1 power else power)
      in if whole @ fraction = [] \<or> \<not> list_all (isDigitOf 10) (whole @ fraction) then NotANumber
         else if exponent = [] then
           Decimal (digitsValue 10 (whole @ fraction)) (- int (length fraction))
         else if \<not> allDigits 10 powerDigits then NotANumber
         else
           Decimal (digitsValue 10 (whole @ fraction))
             ((if take 1 power = ''-'' then - 1 else 1) * digitsValue 10 powerDigits -
              int (length fraction)))"

definition radixInteger :: "nat \<Rightarrow> string \<Rightarrow> number" where
  "radixInteger radix ds = (if allDigits radix ds then Decimal (digitsValue radix ds) 0 else NotANumber)"

definition toNumber :: "string \<Rightarrow> number" where
  "toNumber text =
     (let s = rev (dropWhile isWhiteSpace (rev (dropWhile isWhiteSpace text)));
          unsigned = (if take 1 s = ''-'' \<or> take 1 s = ''+'' then drop 1 s else s)
      in if s = [] then Decimal 0 0
         else if take 2 s = ''0x'' \<or> take 2 s = ''0X'' then radixInteger 16 (drop 2 s)
         else if take 2 s = ''0o'' \<or> take 2 s = ''0O'' then radixInteger 8 (drop 2 s)
         else if take 2 s = ''0b'' \<or> take 2 s = ''0B'' then radixInteger 2 (drop 2 s)
         else if unsigned = ''Infinity'' then
           (if take 1 s = ''-'' then MinusInfinity else PlusInfinity)
         else
           (case unsignedDecimal unsigned of
              Decimal m e \<Rightarrow> Decimal (if take 1 s = ''-'' then - m else m) e
            | other \<Rightarrow> other))"

text \<open>\<open>m * 10^e\<close> as a fraction of two integers.\<close>

definition fractionOf :: "int \<Rightarrow> int \<Rightarrow> int \<times> int" where
  "fractionOf m e = (if 0 \<le> e then (m * 10 ^ nat e, 1) else (m, 10 ^ nat (- e)))"

text \<open>
  The comparisons are made on doubles. The code compares with the integers 48000 and 240,
  which are doubles; the neighbours of such a \<open>k\<close> lie at a distance \<open>2 * 2^-h\<close>
  (\<open>h\<close> is 38 for 48000 and 46 for 240), and a value half way rounds to \<open>k\<close>, whose
  last bit is even. So the double nearest to a value \<open>v\<close> is \<open>k\<close> exactly when
  \<open>|v - k| \<le> 2^-h\<close>, and is greater than \<open>k\<close> exactly when \<open>v > k + 2^-h\<close>.
  \<open>NaN\<close> equals nothing and is greater than nothing.
\<close>

definition roundsTo :: "int \<Rightarrow> nat \<Rightarrow> number \<Rightarrow> bool" where
  "roundsTo k h x =
     (case x of
        Decimal m e \<Rightarrow> (case fractionOf m e of (n, d) \<Rightarrow> \<bar>n - k * d\<bar> * 2 ^ h \<le> d)
      | other \<Rightarrow> False)"

definition roundsAbove :: "int \<Rightarrow> nat \<Rightarrow> number \<Rightarrow> bool" where
  "roundsAbove k h x =
     (case x of
        NotANumber \<Rightarrow> False
      | PlusInfinity \<Rightarrow> True
      | MinusInfinity \<Rightarrow> False
      | Decimal m e \<Rightarrow> (case fractionOf m e of (n, d) \<Rightarrow> (k * 2 ^ h + 1) * d < n * 2 ^ h))"

section \<open>validateAudio\<close>

text \<open>
  A promise that has settled: resolved with a value, or rejected.
\<close>

datatype 'a promise = Resolved 'a | Rejected fault

text \<open>
  Modelled from the spec: the stream descriptor \<open>{sample_rate, bit_rate, duration}\<close> of
  the external probing utility, whose declaration is not part of the repository. The probe
  reports each measured value as a text (\<open>'44100'\<close>, \<open>'48000'\<close>, \<open>'240.024000'\<close>) or
  leaves it out, which is why the code reads the sample rate with \<open>parseInt\<close> and
  compares the other two loosely.
\<close>

record stream =
  sample_rate :: jsval
  bit_rate :: jsval
  duration :: jsval

text \<open>
  The value the probe resolves with; \<open>info.streams\<close> may be missing, and then
  \<open>info.streams.forEach\<close> raises inside the \<open>then\<close> callback.
\<close>

record info =
  streams :: "stream list option"

text \<open>
  The text of a value, as a template literal \<open>`${v}`\<close> prints it and as \<open>parseInt(v)\<close>
  reads it.
\<close>

definition toText :: "jsval \<Rightarrow> string" where
  "toText v = (case v of Undefined \<Rightarrow> ''undefined'' | Str s \<Rightarrow> s)"

text \<open>\<open>[22050, 24000, 16000].indexOf(parseInt(v)) === -1\<close>; \<open>NaN\<close> is in no list.\<close>

definition unlistedRate :: "jsval \<Rightarrow> bool" where
  "unlistedRate v =
     (case parseInt (toText v) of NaN \<Rightarrow> True | Num n \<Rightarrow> n \<notin> set [22050, 24000, 16000])"

text \<open>\<open>v != 48000\<close>: \<open>undefined\<close> is loosely equal to no number.\<close>

definition not48000 :: "jsval \<Rightarrow> bool" where
  "not48000 v = (case v of Undefined \<Rightarrow> True | Str s \<Rightarrow> \<not> roundsTo 48000 38 (toNumber s))"

text \<open>\<open>v > 240\<close>: \<open>undefined\<close> converts to \<open>NaN\<close>.\<close>

definition over240 :: "jsval \<Rightarrow> bool" where
  "over240 v = (case v of Undefined \<Rightarrow> False | Str s \<Rightarrow> roundsAbove 240 46 (toNumber s))"

definition audioError :: "string \<Rightarrow> string \<Rightarrow> error" where
  "audioError src d = (plain ''audio'')\<lparr>val := Some (Str src), detail := Some d\<rparr>"

text \<open>The body of \<open>info.streams.forEach((stream) => { ... })\<close>.\<close>

definition streamErrors :: "string \<Rightarrow> stream \<Rightarrow> error list" where
  "streamErrors src stream =
     (if unlistedRate (sample_rate stream)
      then [audioError src (''Invalid bit rate '' @ toText (sample_rate stream) @ '' Hz'')]
      else []) @
     (if not48000 (bit_rate stream)
      then [audioError src (''Invalid bit rate '' @ toText (bit_rate stream))]
      else []) @
     (if over240 (duration stream)
      then [audioError src (''Invalid duration '' @ toText (duration stream) @ '' Hz'')]
      else [])"

text \<open>\<open>/^https(.)+\.mp3/gi\<close>: anchored at the start only, letters in either case.\<close>

definition mp3Pattern :: regex where
  "mp3Pattern =
     Cat (OneOf ''hH'') (Cat (OneOf ''tT'') (Cat (OneOf ''tT'') (Cat (OneOf ''pP'')
       (Cat (OneOf ''sS'') (Cat (oneOrMore dot) (Cat (lit ''.'') (Cat (OneOf ''mM'')
         (Cat (OneOf ''pP'') (Cat (lit ''3'') anything)))))))))"

text \<open>
  \<open>ffprobe\<close> is the external probe. The call either raises at once (\<open>Inl\<close>) or returns
  a promise, which resolves with an \<open>info\<close> or rejects. A fault raised by the call
  leaves \<open>validateAudio\<close> as it is: nothing in the function catches it. On the promise,
  the \<open>then\<close> callback pushes the stream errors; a rejection, or a fault raised in the
  callback, reaches the \<open>catch\<close> callback, which pushes one more error onto what the
  array already holds. The callback can only raise at \<open>info.streams.forEach\<close>, before
  any push.
\<close>

definition validateAudio ::
  "(string \<Rightarrow> fault + info promise) \<Rightarrow> string \<Rightarrow> fault + error list promise" where
  "validateAudio ffprobe src =
     (if \<not> matches mp3Pattern src then Inr (Resolved [audioError src ''Not MP3 on HTTPS''])
      else
        (case ffprobe src of
           Inl f \<Rightarrow> Inl f
         | Inr (Rejected f) \<Rightarrow> Inr (Resolved [audioError src ''Can't access file''])
         | Inr (Resolved i) \<Rightarrow>
             (case streams i of
                None \<Rightarrow> Inr (Resolved [audioError src ''Can't access file''])
              | Some ss \<Rightarrow> Inr (Resolved (concat (map (streamErrors src) ss))))))"

section \<open>check\<close>

record options =
  platform :: "string option"
  validateAudioFiles :: bool

text \<open>
  The XML adapter either raises or returns the document object, whose \<open>elements\<close>
  property may be missing.
\<close>

type_synonym document = "element list option"

text \<open>\<open>text.replace('&', '&amp;')\<close>: the first occurrence only.\<close>

fun replaceAmpersand :: "string \<Rightarrow> string" where
  "replaceAmpersand [] = []"
| "replaceAmpersand (c # cs) = (if c = CHR ''&'' then ''&amp;'' @ cs else c # replaceAmpersand cs)"

text \<open>\<open>userOptions.platform || 'all'\<close>, with \<open>userOptions = options || {}\<close>.\<close>

definition platformOf :: "options option \<Rightarrow> string" where
  "platformOf opts =
     (case opts of
        None \<Rightarrow> ''all''
      | Some u \<Rightarrow> (case platform u of None \<Rightarrow> ''all'' | Some p \<Rightarrow> if p = [] then ''all'' else p))"

definition wantsAudio :: "options option \<Rightarrow> bool" where
  "wantsAudio opts = (case opts of None \<Rightarrow> False | Some u \<Rightarrow> validateAudioFiles u)"

text \<open>\<open>Promise.all\<close>: rejected as soon as one member is.\<close>

fun promiseAll :: "'a promise list \<Rightarrow> 'a list promise" where
  "promiseAll [] = Resolved []"
| "promiseAll (p # ps) =
     (case p of
        Rejected f \<Rightarrow> Rejected f
      | Resolved x \<Rightarrow> (case promiseAll ps of Rejected f \<Rightarrow> Rejected f | Resolved xs \<Rightarrow> Resolved (x # xs)))"

text \<open>\<open>errors.length ? errors : undefined\<close>\<close>

definition orUndefined :: "error list \<Rightarrow> error list option" where
  "orUndefined errors = (if errors = [] then None else Some errors)"

text \<open>
  How the outer \<open>try\<close> block of \<open>check\<close> ends: with a \<open>return\<close>, by running off its
  end, or with a fault. In the last two cases \<open>errors\<close> is the array at that point.
\<close>

datatype completion =
    Return "error list option promise"
  | Fallthrough "error list"
  | Raised fault "error list"

text \<open>\<open>if (audio.length > 5) errors.push({type: 'Too many audio files'})\<close>\<close>

definition countAudio :: "error list \<Rightarrow> string list \<Rightarrow> error list" where
  "countAudio errors audio =
     (if length audio > 5 then errors @ [plain ''Too many audio files''] else errors)"

text \<open>
  \<open>audio.forEach((file) => { promises.push(validateAudio(file)); })\<close>: the calls are
  made one after the other, and a call that raises ends the loop with its fault.
\<close>

fun validateEach ::
  "(string \<Rightarrow> fault + info promise) \<Rightarrow> string list \<Rightarrow> fault + error list promise list" where
  "validateEach ffprobe [] = Inr []"
| "validateEach ffprobe (file # files) =
     (case validateAudio ffprobe file of
        Inl f \<Rightarrow> Inl f
      | Inr promise \<Rightarrow>
          (case validateEach ffprobe files of
             Inl f \<Rightarrow> Inl f
           | Inr promises \<Rightarrow> Inr (promise # promises)))"

text \<open>
  The part of the \<open>try\<close> block after \<open>speech\<close> has been found. A fault of the schema
  pass or of the extraction leaves the block before the audio files are counted; a fault
  raised by a probe call leaves it after the count.
\<close>

definition validate ::
  "(string \<Rightarrow> fault + info promise) \<Rightarrow> (string \<Rightarrow> real) \<Rightarrow> element \<Rightarrow> string \<Rightarrow> bool \<Rightarrow>
   completion" where
  "validate ffprobe parseFloat speech p audioWanted =
     (case checkForValidTags parseFloat [] speech p of
        Thrown f errors \<Rightarrow> Raised f errors
      | Normal errors \<Rightarrow>
          (case getAudioFiles speech of
             Inl f \<Rightarrow> Raised f errors
           | Inr audio \<Rightarrow>
               (let errors = countAudio errors audio
                in if audioWanted then
                     (case validateEach ffprobe audio of
                        Inl f \<Rightarrow> Raised f errors
                      | Inr promises \<Rightarrow>
                          Return
                            (case promiseAll promises of
                               Rejected f \<Rightarrow> Rejected f
                             | Resolved audioErrors \<Rightarrow>
                                 Resolved (orUndefined (errors @ concat audioErrors))))
                   else Fallthrough errors)))"

definition tryBlock ::
  "(string \<Rightarrow> document option) \<Rightarrow> (string \<Rightarrow> fault + info promise) \<Rightarrow> (string \<Rightarrow> real) \<Rightarrow>
   string \<Rightarrow> options option \<Rightarrow> completion" where
  "tryBlock xml2json ffprobe parseFloat ssml opts =
     (if platformOf opts \<notin> set [''all'', ''amazon'', ''google''] then
        Return (Resolved (Some [plain ''invalid platform'']))
      else
        (case xml2json ssml of
           Some result \<Rightarrow>
             (case result of
                Some [speech] \<Rightarrow>
                  if name speech = Some ''speak''
                  then validate ffprobe parseFloat speech (platformOf opts) (wantsAudio opts)
                  else Return (Resolved (Some [(plain ''tag'')\<lparr>tag := Some (Str ''speak'')\<rparr>]))
              | _ \<Rightarrow> Return (Resolved (Some [(plain ''tag'')\<lparr>tag := Some (Str ''speak'')\<rparr>])))
         | None \<Rightarrow>
             (case xml2json (replaceAmpersand ssml) of
                Some result \<Rightarrow> Return (Resolved (Some [plain ''Invalid & character'']))
              | None \<Rightarrow> Return (Resolved (Some [plain ''Can't parse SSML''])))))"

text \<open>
  \<open>check\<close>: the \<open>catch\<close> of the outer \<open>try\<close> pushes \<open>{type: 'unknown error'}\<close>, and
  the statement after it resolves with the array, or with \<open>undefined\<close> when it is empty.
\<close>

definition check ::
  "(string \<Rightarrow> document option) \<Rightarrow> (string \<Rightarrow> fault + info promise) \<Rightarrow> (string \<Rightarrow> real) \<Rightarrow>
   string \<Rightarrow> options option \<Rightarrow> error list option promise" where
  "check xml2json ffprobe parseFloat ssml opts =
     (case tryBlock xml2json ffprobe parseFloat ssml opts of
        Return settled \<Rightarrow> settled
      | Fallthrough errors \<Rightarrow> Resolved (orUndefined errors)
      | Raised f errors \<Rightarrow> Resolved (orUndefined (errors @ [plain ''unknown error''])))"

section \<open>Hosts and documents used as concrete inputs\<close>

text \<open>
  An XML adapter that parses exactly one text, into the given tree, and raises on
  every other text; a probe whose promise always rejects, and one whose call raises; a
  \<open>parseFloat\<close> that is never consulted by the documents below.
\<close>

definition adapterFor :: "string \<Rightarrow> element \<Rightarrow> string \<Rightarrow> document option" where
  "adapterFor text tree t = (if t = text then Some (Some [tree]) else None)"

definition noProbe :: "string \<Rightarrow> fault + info promise" where
  "noProbe src = Inr (Rejected ProbeFailure)"

definition brokenProbe :: "string \<Rightarrow> fault + info promise" where
  "brokenProbe src = Inl TypeError"

definition zeroFloat :: "string \<Rightarrow> real" where
  "zeroFloat s = 0"

text \<open>A text node, and \<open><speak>\<close> around a list of children.\<close>

definition textNode :: element where
  "textNode = Element None None None"

definition speak :: "element list \<Rightarrow> element" where
  "speak children = Element (Some ''speak'') None (Some children)"

section \<open>Notions used to state the theorems\<close>

subsection \<open>Stream errors\<close>






subsection \<open>Faults\<close>

text \<open>
  A result reports a fault that was raised when the array held \<open>errors\<close>: it is
  settled, it holds these errors followed by one \<open>unknown error\<close> record, and no other
  record of it has that type.
\<close>

definition reportsFault :: "error list option promise \<Rightarrow> error list \<Rightarrow> bool" where
  "reportsFault result errors =
     (result = Resolved (Some (errors @ [plain ''unknown error''])) \<and>
      list_all (\<lambda>e. type e \<noteq> ''unknown error'') errors)"

subsection \<open>The audio elements of a tree\<close>

text \<open>
  All nodes of a tree in document order (a node before its children), the nodes named
  \<open>audio\<close> among them, and the non-empty \<open>src\<close> values these carry.
\<close>

fun nodes :: "element \<Rightarrow> element list" where
  "nodes (Element n a es) =
     Element n a es # (case es of None \<Rightarrow> [] | Some items \<Rightarrow> concat (map nodes items))"

definition audioElements :: "element \<Rightarrow> element list" where
  "audioElements e = filter (\<lambda>x. name x = Some ''audio'') (nodes e)"

definition srcOf :: "element \<Rightarrow> string list" where
  "srcOf x =
     (case attributes x of
        None \<Rightarrow> []
      | Some a \<Rightarrow> (case map_of a ''src'' of None \<Rightarrow> [] | Some s \<Rightarrow> if s = [] then [] else [s]))"

definition audioSources :: "element \<Rightarrow> string list" where
  "audioSources e = concat (map srcOf (audioElements e))"

definition childless :: "element \<Rightarrow> bool" where
  "childless x = (elements x = None)"

subsection \<open>Further concrete inputs\<close>





definition sixFilesText :: string where
  "sixFilesText =
     ''<speak>'' @ concat (replicate 6 ''<audio src='https://x.example/a.mp3'/>'') @ ''</speak>''"

definition sixWithoutSrcText :: string where
  "sixWithoutSrcText = ''<speak>'' @ concat (replicate 6 ''<audio clipBegin='1s'/>'') @ ''</speak>''"

definition sixFiles :: element where
  "sixFiles =
     speak (replicate 6 (Element (Some ''audio'') (Some [(''src'', ''https://x.example/a.mp3'')]) None))"

definition sixWithoutSrc :: element where
  "sixWithoutSrc =
     speak (replicate 6 (Element (Some ''audio'') (Some [(''clipBegin'', ''1s'')]) None))"

text \<open>A document with six \<open>audio\<close> elements that carry a \<open>src\<close> and a text.\<close>

definition sixWithText :: element where
  "sixWithText =
     speak (replicate 6 (Element (Some ''audio'') (Some [(''src'', ''https://x.example/a.mp3'')])
                           (Some [textNode])))"

definition sixWithTextText :: string where
  "sixWithTextText =
     ''<speak>'' @ concat (replicate 6 ''<audio src='https://x.example/a.mp3'>a</audio>'') @
     ''</speak>''"

subsection \<open>The errors of the schema pass are Tag errors\<close>

fun errorsOf :: "outcome \<Rightarrow> error list" where
  "errorsOf (Normal errors) = errors"
| "errorsOf (Thrown f errors) = errors"

text \<open>The array after a step is the array before it, followed by Tag errors only.\<close>

definition onlyTags :: "error list \<Rightarrow> outcome \<Rightarrow> bool" where
  "onlyTags errors out =
     (\<exists>new. errorsOf out = errors @ new \<and> list_all (\<lambda>e. type e = ''tag'') new)"

section \<open>Theorems\<close>

subsection \<open>The result of check is settled and never an empty list\<close>

lemma validateAudio_resolves:
  "validateAudio ffprobe src = Inr promise \<Longrightarrow> \<exists>es. promise = Resolved es"
  by (auto simp add: validateAudio_def split: if_splits sum.splits promise.splits option.splits)

lemma promiseAll_resolves:
  "list_all (\<lambda>p. \<exists>x. p = Resolved x) ps \<Longrightarrow> \<exists>xs. promiseAll ps = Resolved xs"
  by (induction ps) (auto split: promise.splits)

lemma validateEach_resolves:
  "validateEach ffprobe audio = Inr promises \<Longrightarrow> list_all (\<lambda>p. \<exists>x. p = Resolved x) promises"
proof (induction audio arbitrary: promises)
  case Nil
  then show ?case by simp
next
  case (Cons src others)
  from Cons.prems obtain promise rest where
    first: "validateAudio ffprobe src = Inr promise" and
    rest: "validateEach ffprobe others = Inr rest" and
    all: "promises = promise # rest"
    by (auto split: sum.splits)
  from validateAudio_resolves [OF first] Cons.IH [OF rest] all show ?case by simp
qed

lemma promiseAll_validateEach:
  "validateEach ffprobe audio = Inr promises \<Longrightarrow> \<exists>xs. promiseAll promises = Resolved xs"
  by (rule promiseAll_resolves) (rule validateEach_resolves)

lemma orUndefined_not_empty: "orUndefined errors \<noteq> Some []"
  by (simp add: orUndefined_def)

lemma validate_cases:
  "(\<exists>r. validate ffprobe parseFloat speech p w = Return (Resolved r) \<and> r \<noteq> Some []) \<or>
   (\<exists>errors. validate ffprobe parseFloat speech p w = Fallthrough errors) \<or>
   (\<exists>f errors. validate ffprobe parseFloat speech p w = Raised f errors)"
proof (cases "checkForValidTags parseFloat [] speech p")
  case (Thrown f errors)
  then show ?thesis by (simp add: validate_def)
next
  case (Normal errors)
  show ?thesis
  proof (cases "getAudioFiles speech")
    case (Inl f)
    with Normal show ?thesis by (simp add: validate_def)
  next
    case (Inr audio)
    show ?thesis
    proof (cases "validateEach ffprobe audio")
      case raised: (Inl f)
      with Normal Inr show ?thesis by (cases w) (simp_all add: validate_def Let_def)
    next
      case called: (Inr promises)
      then obtain xs where "promiseAll promises = Resolved xs"
        using promiseAll_validateEach by blast
      with Normal Inr called show ?thesis
        by (cases w) (simp_all add: validate_def Let_def orUndefined_not_empty)
    qed
  qed
qed

lemma tryBlock_validate:
  assumes "platformOf opts \<in> set [''all'', ''amazon'', ''google'']"
    and "xml2json ssml = Some (Some [speech])"
    and "name speech = Some ''speak''"
  shows "tryBlock xml2json ffprobe parseFloat ssml opts =
           validate ffprobe parseFloat speech (platformOf opts) (wantsAudio opts)"
  using assms by (simp add: tryBlock_def)

lemma tryBlock_cases:
  "(\<exists>r. tryBlock xml2json ffprobe parseFloat ssml opts = Return (Resolved r) \<and> r \<noteq> Some []) \<or>
   (\<exists>errors. tryBlock xml2json ffprobe parseFloat ssml opts = Fallthrough errors) \<or>
   (\<exists>f errors. tryBlock xml2json ffprobe parseFloat ssml opts = Raised f errors)"
proof (cases "platformOf opts \<in> set [''all'', ''amazon'', ''google'']")
  case False
  then show ?thesis by (simp add: tryBlock_def)
next
  case valid: True
  show ?thesis
  proof (cases "xml2json ssml")
    case None
    with valid show ?thesis
      by (cases "xml2json (replaceAmpersand ssml)") (simp_all add: tryBlock_def)
  next
    case (Some result)
    show ?thesis
    proof (cases "\<exists>speech. result = Some [speech] \<and> name speech = Some ''speak''")
      case True
      then obtain speech where "result = Some [speech]" "name speech = Some ''speak''" by blast
      with valid Some have
        "tryBlock xml2json ffprobe parseFloat ssml opts =
           validate ffprobe parseFloat speech (platformOf opts) (wantsAudio opts)"
        by (simp add: tryBlock_validate)
      then show ?thesis
        using validate_cases [of ffprobe parseFloat speech "platformOf opts" "wantsAudio opts"]
        by simp
    next
      case False
      with valid Some have
        "tryBlock xml2json ffprobe parseFloat ssml opts =
           Return (Resolved (Some [(plain ''tag'')\<lparr>tag := Some (Str ''speak'')\<rparr>]))"
        by (auto simp add: tryBlock_def split: option.split list.split)
      then show ?thesis by simp
    qed
  qed
qed

text \<open>
  C9. For every input text and every options value, whatever the adapter and the probe do,
  \<open>check\<close> resolves, and it resolves either with \<open>undefined\<close> (no errors) or with a
  non-empty list of error records; it never resolves with an empty list.
\<close>

theorem check_never_empty:
  "\<exists>r. check xml2json ffprobe parseFloat ssml opts = Resolved r \<and> r \<noteq> Some []"
  using tryBlock_cases [of xml2json ffprobe parseFloat ssml opts]
  by (auto simp add: check_def orUndefined_not_empty)

subsection \<open>The retry after a parse failure\<close>

lemma replaceAmpersand_first:
  "CHR ''&'' \<notin> set u \<Longrightarrow> replaceAmpersand (u @ CHR ''&'' # v) = u @ ''&amp;'' @ v"
  by (induction u) auto

lemma replaceAmpersand_none: "CHR ''&'' \<notin> set u \<Longrightarrow> replaceAmpersand u = u"
  by (induction u) auto

text \<open>
  C5. When the platform is one of the three legal ones and the adapter raises on the input
  text, the result is exactly one error: \<open>Invalid & character\<close> when the adapter accepts
  the text with its first \<open>&\<close> replaced by \<open>&amp;\<close>, and \<open>Can't parse SSML\<close> when it
  raises again. The tree that the second parse returns is not looked at, so no schema
  validation runs.
\<close>

theorem ampersand_retry:
  assumes "platformOf opts \<in> set [''all'', ''amazon'', ''google'']"
    and "xml2json ssml = None"
  shows "check xml2json ffprobe parseFloat ssml opts =
           (if xml2json (replaceAmpersand ssml) = None
            then Resolved (Some [plain ''Can't parse SSML''])
            else Resolved (Some [plain ''Invalid & character'']))"
  using assms by (auto simp add: check_def tryBlock_def split: option.split)

theorem ampersand_retry_witness:
  "check (adapterFor ''<speak>R&amp;D</speak>'' (speak [textNode])) noProbe zeroFloat
     ''<speak>R&D</speak>'' None = Resolved (Some [plain ''Invalid & character'']) \<and>
   check (adapterFor ''<speak>R&amp;D</speak>'' (speak [textNode])) noProbe zeroFloat
     ''<speak>R'' None = Resolved (Some [plain ''Can't parse SSML''])"
  using
    ampersand_retry [of None "adapterFor ''<speak>R&amp;D</speak>'' (speak [textNode])"
      "''<speak>R&D</speak>''" noProbe zeroFloat]
    ampersand_retry [of None "adapterFor ''<speak>R&amp;D</speak>'' (speak [textNode])"
      "''<speak>R''" noProbe zeroFloat]
  by (simp add: platformOf_def adapterFor_def)

subsection \<open>Platform gating of interpret-as\<close>

lemma supported_amazon_google:
  "p = ''amazon'' \<or> p = ''google'' \<Longrightarrow> supported p v"
  by (auto simp add: supported_def indexOfBoolean_def)

lemma supported_all: "\<not> supported ''all'' v"
  by (simp add: supported_def)

text \<open>
  C1. The claim asks that a \<open>say-as\<close> value outside the universal list is accepted only
  when it is in the Amazon list under platform amazon, or in the Google list under
  platform google. The code does not do that: under platform amazon the value \<open>foo\<close>,
  which is in no list, gives no error, and under platform google the Amazon-only value
  \<open>number\<close> gives no error. Only under platform all is a value outside the universal
  list reported.
\<close>

theorem interpret_as_gate_is_open:
  "check (adapterFor ''<speak><say-as interpret-as='foo'>x</say-as></speak>''
            (speak [Element (Some ''say-as'') (Some [(''interpret-as'', ''foo'')])
                      (Some [textNode])]))
     noProbe zeroFloat ''<speak><say-as interpret-as='foo'>x</say-as></speak>''
     (Some \<lparr>platform = Some ''amazon'', validateAudioFiles = False\<rparr>) = Resolved None
   \<and>
   check (adapterFor ''<speak><say-as interpret-as='number'>x</say-as></speak>''
            (speak [Element (Some ''say-as'') (Some [(''interpret-as'', ''number'')])
                      (Some [textNode])]))
     noProbe zeroFloat ''<speak><say-as interpret-as='number'>x</say-as></speak>''
     (Some \<lparr>platform = Some ''google'', validateAudioFiles = False\<rparr>) = Resolved None
   \<and>
   check (adapterFor ''<speak><say-as interpret-as='foo'>x</say-as></speak>''
            (speak [Element (Some ''say-as'') (Some [(''interpret-as'', ''foo'')])
                      (Some [textNode])]))
     noProbe zeroFloat ''<speak><say-as interpret-as='foo'>x</say-as></speak>''
     (Some \<lparr>platform = Some ''all'', validateAudioFiles = False\<rparr>) =
   Resolved (Some [\<lparr>type = ''tag'', tag = Some (Str ''say-as''),
                    attr = Some (Str ''interpret-as''), val = Some (Str ''foo''),
                    detail = None\<rparr>])"
  by code_simp

subsection \<open>A required attribute that is missing\<close>

lemma required_raises:
  "attributes element = None \<Longrightarrow> required element (Normal errors) = Thrown TypeError errors"
  by (simp add: required_def attributeNames_def createTagError_def attributeOf_def push_def)

text \<open>
  The error that the code means to push is built only when the attribute object is present
  and empty.
\<close>

lemma required_empty_object:
  "attributes element = Some [] \<Longrightarrow>
   required element (Normal errors) =
     Normal (errors @ [\<lparr>type = ''tag'', tag = Some (nameOf element), attr = Some (Str ''none''),
                         val = Some Undefined, detail = None\<rparr>])"
  by (simp add: required_def attributeNames_def createTagError_def attributeOf_def push_def)

text \<open>
  C2. The claim asks for a Tag error that marks the required attribute as missing when an
  \<open>amazon:effect\<close>, \<open>audio\<close>, \<open>emphasis\<close> or \<open>lang\<close> element carries no
  attribute. An element without attributes has no attribute object, and the code builds
  that error by reading \<open>element.attributes['none']\<close>: a TypeError is raised, no Tag
  error is pushed, and the result of \<open>check\<close> is the single \<open>unknown error\<close>.
\<close>

theorem missing_required_attribute_raises:
  "check (adapterFor ''<speak><emphasis>hi</emphasis></speak>''
            (speak [Element (Some ''emphasis'') None (Some [textNode])]))
     noProbe zeroFloat ''<speak><emphasis>hi</emphasis></speak>'' None =
   Resolved (Some [plain ''unknown error''])
   \<and>
   check (adapterFor ''<speak><audio/></speak>'' (speak [Element (Some ''audio'') None None]))
     noProbe zeroFloat ''<speak><audio/></speak>'' None =
   Resolved (Some [plain ''unknown error''])
   \<and>
   check (adapterFor ''<speak><amazon:effect>hi</amazon:effect></speak>''
            (speak [Element (Some ''amazon:effect'') None (Some [textNode])]))
     noProbe zeroFloat ''<speak><amazon:effect>hi</amazon:effect></speak>''
     (Some \<lparr>platform = Some ''amazon'', validateAudioFiles = False\<rparr>) =
   Resolved (Some [plain ''unknown error''])
   \<and>
   check (adapterFor ''<speak><lang>hi</lang></speak>''
            (speak [Element (Some ''lang'') None (Some [textNode])]))
     noProbe zeroFloat ''<speak><lang>hi</lang></speak>''
     (Some \<lparr>platform = Some ''amazon'', validateAudioFiles = False\<rparr>) =
   Resolved (Some [plain ''unknown error''])"
  by code_simp

subsection \<open>Children of par and seq\<close>

lemma parSeqChild_raises:
  "notIn [''par'', ''seq'', ''media''] (nameOf item) \<Longrightarrow>
   parSeqChild element item errors = Thrown ReferenceError errors"
  by (simp add: parSeqChild_def attributeUnbound_def)

lemma parSeqChild_accepts:
  "\<not> notIn [''par'', ''seq'', ''media''] (nameOf item) \<Longrightarrow>
   parSeqChild element item errors = Normal errors"
  by (simp add: parSeqChild_def)

text \<open>
  C3. The claim asks for one error per direct child of a \<open>par\<close> or \<open>seq\<close> element that is
  not named \<open>par\<close>, \<open>seq\<close> or \<open>media\<close>, with the child's name in the record. At the
  first such child the code evaluates the undeclared identifier \<open>attribute\<close>: a
  ReferenceError is raised, no error citing the child is pushed, and the result of
  \<open>check\<close> is the single \<open>unknown error\<close>. A child named \<open>media\<close> gives no error.
\<close>

theorem par_child_check_raises:
  "check (adapterFor ''<speak><par><audio src='https://x.example/a.mp3'/></par></speak>''
            (speak [Element (Some ''par'') None
                      (Some [Element (Some ''audio'')
                               (Some [(''src'', ''https://x.example/a.mp3'')]) None])]))
     noProbe zeroFloat ''<speak><par><audio src='https://x.example/a.mp3'/></par></speak>''
     (Some \<lparr>platform = Some ''google'', validateAudioFiles = False\<rparr>) =
   Resolved (Some [plain ''unknown error''])
   \<and>
   check (adapterFor ''<speak><seq>hi</seq></speak>''
            (speak [Element (Some ''seq'') None (Some [textNode])]))
     noProbe zeroFloat ''<speak><seq>hi</seq></speak>''
     (Some \<lparr>platform = Some ''google'', validateAudioFiles = False\<rparr>) =
   Resolved (Some [plain ''unknown error''])
   \<and>
   check (adapterFor ''<speak><par><media/></par></speak>''
            (speak [Element (Some ''par'') None (Some [Element (Some ''media'') None None])]))
     noProbe zeroFloat ''<speak><par><media/></par></speak>''
     (Some \<lparr>platform = Some ''google'', validateAudioFiles = False\<rparr>) = Resolved None"
  by code_simp

subsection \<open>The duration parser\<close>

lemma readDuration_examples:
  "readDuration ''infinity'' None = Some (Num MAX_SAFE_INTEGER)"
  "readDuration ''infinity'' (Some 10000) = None"
  "readDuration ''250ms'' (Some 10000) = Some (Num 250)"
  "readDuration ''5s'' (Some 10000) = Some (Num 5000)"
  "readDuration ''1.5s'' None = Some (Num 1000)"
  "readDuration ''20s'' (Some 10000) = None"
  "readDuration ''soon'' None = None"
  by code_simp+

lemma breakAttribute_time:
  assumes "attributeOf element ''time'' = Inr (Str text)"
    and "readDuration text (Some 10000) \<noteq> None"
  shows "breakAttribute element ''time'' errors = Normal errors"
  using assms by (auto simp add: breakAttribute_def noDuration_def pushIf_def)

text \<open>
  C6. The claim holds on the inputs it names: \<open>time='5s'\<close> gives no error and
  \<open>time='20s'\<close> gives one Tag error for \<open>time\<close>. It says that every other shape
  fails; the code accepts \<open>5msXYZ\<close> as 5 milliseconds, because its pattern for the
  milliseconds form is not anchored, unlike the pattern for the seconds form next to it.
  A \<open>break\<close> with \<open>time='5msXYZ'\<close> gives no error.
\<close>

theorem break_time_accepts_trailing_text:
  "readDuration ''5msXYZ'' (Some 10000) = Some (Num 5)
   \<and>
   check (adapterFor ''<speak><break time='5msXYZ'/></speak>''
            (speak [Element (Some ''break'') (Some [(''time'', ''5msXYZ'')]) None]))
     noProbe zeroFloat ''<speak><break time='5msXYZ'/></speak>'' None = Resolved None
   \<and>
   check (adapterFor ''<speak><break time='5s'/></speak>''
            (speak [Element (Some ''break'') (Some [(''time'', ''5s'')]) None]))
     noProbe zeroFloat ''<speak><break time='5s'/></speak>'' None = Resolved None
   \<and>
   check (adapterFor ''<speak><break time='20s'/></speak>''
            (speak [Element (Some ''break'') (Some [(''time'', ''20s'')]) None]))
     noProbe zeroFloat ''<speak><break time='20s'/></speak>'' None =
   Resolved (Some [\<lparr>type = ''tag'', tag = Some (Str ''break''), attr = Some (Str ''time''),
                    val = Some (Str ''20s''), detail = None\<rparr>])"
  by code_simp

subsection \<open>The milliseconds pattern matches anywhere in the text\<close>

lemma matches_Never [simp]: "\<not> matches Never w"
  by (induction w) auto

lemma matches_Alt [simp]: "matches (Alt r s) w = (matches r w \<or> matches s w)"
  by (induction w arbitrary: r s) auto

lemma matches_Cat_Nil: "nullable r \<Longrightarrow> matches s v \<Longrightarrow> matches (Cat r s) v"
  by (cases v) auto

lemma matches_Cat: "matches r u \<Longrightarrow> matches s v \<Longrightarrow> matches (Cat r s) (u @ v)"
proof (induction u arbitrary: r)
  case Nil
  then show ?case by (simp add: matches_Cat_Nil)
next
  case (Cons c u)
  then show ?case by simp
qed

lemma matches_anything [simp]: "matches anything w"
proof (induction w)
  case Nil
  show ?case by (simp add: anything_def)
next
  case (Cons c w)
  have "matches (Cat Empty anything) ([] @ w)" by (rule matches_Cat) (simp_all add: Cons)
  then show ?case by (simp add: anything_def)
qed

lemma matches_anywhere: "matches r w \<Longrightarrow> matches (anywhere r) (u @ w @ v)"
  unfolding anywhere_def by (intro matches_Cat) simp_all


lemma matches_digit: "d \<in> set ''0123456789'' \<Longrightarrow> matches (oneOrMore digit) [d]"
  by (simp add: oneOrMore_def digit_def)

lemma matches_lit_ms: "matches (lit ''ms'') ''ms''"
  by (simp add: lit_def)

lemma matches_digit_ms:
  assumes "d \<in> set ''0123456789''"
  shows "matches (anywhere (Cat (oneOrMore digit) (lit ''ms''))) (u @ d # ''ms'' @ v)"
proof -
  have "matches (Cat (oneOrMore digit) (lit ''ms'')) ([d] @ ''ms'')"
    using matches_digit [OF assms] matches_lit_ms by (rule matches_Cat)
  then have "matches (anywhere (Cat (oneOrMore digit) (lit ''ms''))) (u @ ([d] @ ''ms'') @ v)"
    by (rule matches_anywhere)
  then show ?thesis by simp
qed

lemma not_infinity: "u @ d # ''ms'' @ v \<noteq> ''infinity''"
proof
  assume "u @ d # ''ms'' @ v = ''infinity''"
  moreover have "CHR ''m'' \<in> set (u @ d # ''ms'' @ v)" by simp
  ultimately have "CHR ''m'' \<in> set ''infinity''" by simp
  then show False by simp
qed

lemma readDuration_ms_anywhere:
  assumes "d \<in> set ''0123456789''"
  shows "readDuration (u @ d # ''ms'' @ v) None = Some (parseInt (u @ d # ''ms'' @ v))"
  using matches_digit_ms [OF assms, of u v] not_infinity [of u d v]
  by (simp add: readDuration_def capped_def)

lemma noDuration_ms_anywhere:
  assumes "d \<in> set ''0123456789''"
    and "attributeOf element k = Inr (Str (u @ d # ''ms'' @ v))"
  shows "noDuration element k None = Inr False"
  using readDuration_ms_anywhere [OF assms(1), of u v] assms(2)
  by (simp add: noDuration_def)

lemma audioAttribute_duration:
  assumes "k \<in> set [''clipBegin'', ''clipEnd'', ''repeatDur'']"
    and "noDuration element k None = Inr False"
  shows "audioAttribute ''google'' element k errors = Normal errors"
proof -
  from assms(1) consider "k = ''clipBegin''" | "k = ''clipEnd''" | "k = ''repeatDur''" by auto
  then show ?thesis
  proof cases
    case 1
    with assms(2) show ?thesis by (simp add: audioAttribute_def pushIf_def)
  next
    case 2
    with assms(2) show ?thesis by (simp add: audioAttribute_def pushIf_def)
  next
    case 3
    with assms(2) show ?thesis by (simp add: audioAttribute_def pushIf_def)
  qed
qed

lemma mediaAttribute_duration:
  assumes "k \<in> set [''repeatDur'', ''fadeInDur'', ''fadeOutDur'']"
    and "noDuration element k None = Inr False"
  shows "mediaAttribute element k errors = Normal errors"
proof -
  from assms(1) consider "k = ''repeatDur''" | "k = ''fadeInDur''" | "k = ''fadeOutDur''" by auto
  then show ?thesis
  proof cases
    case 1
    with assms(2) show ?thesis by (simp add: mediaAttribute_def pushIf_def)
  next
    case 2
    with assms(2) show ?thesis by (simp add: mediaAttribute_def pushIf_def)
  next
    case 3
    with assms(2) show ?thesis by (simp add: mediaAttribute_def pushIf_def)
  qed
qed

text \<open>
  C10. The milliseconds form is tested with an unanchored pattern: every text that
  contains a digit directly followed by \<open>ms\<close> is read as a duration, whose value is
  whatever \<open>parseInt\<close> makes of the whole text, capped by the maximum when there is
  one. When no maximum is supplied the result is never \<open>undefined\<close>, also when
  \<open>parseInt\<close> gives \<open>NaN\<close>, so the attribute checks that call \<open>readDuration\<close>
  without a maximum (\<open>clipBegin\<close>, \<open>clipEnd\<close> and \<open>repeatDur\<close> of \<open>audio\<close> under
  platform google; \<open>repeatDur\<close>, \<open>fadeInDur\<close> and \<open>fadeOutDur\<close> of \<open>media\<close>) push
  no error for such a value. The witness evaluates \<open>5msXYZ\<close> (accepted as 5 under the
  cap of 10000) and \<open>abc5ms\<close> (\<open>NaN\<close>, accepted without a maximum).
\<close>

theorem milliseconds_pattern_is_unanchored:
  assumes "d \<in> set ''0123456789''"
  shows "readDuration (u @ d # ''ms'' @ v) maximum = capped (parseInt (u @ d # ''ms'' @ v)) maximum \<and>
         readDuration (u @ d # ''ms'' @ v) None \<noteq> None \<and>
         (attributeOf element k = Inr (Str (u @ d # ''ms'' @ v)) \<longrightarrow>
            (k \<in> set [''clipBegin'', ''clipEnd'', ''repeatDur''] \<longrightarrow>
               audioAttribute ''google'' element k errors = Normal errors) \<and>
            (k \<in> set [''repeatDur'', ''fadeInDur'', ''fadeOutDur''] \<longrightarrow>
               mediaAttribute element k errors = Normal errors))"
proof -
  let ?text = "u @ d # ''ms'' @ v"
  have general: "readDuration ?text m = capped (parseInt ?text) m" for m
    using matches_digit_ms [OF assms, of u v] not_infinity [of u d v]
    by (simp add: readDuration_def)
  have accepted: "readDuration ?text None \<noteq> None"
    using general [of None] by (simp add: capped_def)
  have attr: "noDuration element k None = Inr False" if "attributeOf element k = Inr (Str ?text)"
    using that accepted by (simp add: noDuration_def)
  show ?thesis
    using general [of maximum] accepted attr audioAttribute_duration mediaAttribute_duration
    by blast
qed

theorem milliseconds_pattern_is_unanchored_witness:
  "readDuration ''5msXYZ'' (Some 10000) = Some (Num 5) \<and>
   readDuration ''abc5ms'' None = Some NaN \<and>
   audioAttribute ''google''
     (Element (Some ''audio'') (Some [(''src'', ''a.mp3''), (''clipBegin'', ''abc5ms'')]) None)
     ''clipBegin'' [] = Normal []"
proof -
  let ?audio = "Element (Some ''audio'') (Some [(''src'', ''a.mp3''), (''clipBegin'', ''abc5ms'')]) None"
  have five: "CHR ''5'' \<in> set ''0123456789''" by simp
  note a = milliseconds_pattern_is_unanchored [OF five, of "[]" "''XYZ''" "Some 10000"]
  note b = milliseconds_pattern_is_unanchored [OF five, of "''abc''" "[]" None ?audio
      "''clipBegin''" "[]"]
  have "readDuration ''5msXYZ'' (Some 10000) = capped (parseInt ''5msXYZ'') (Some 10000)"
    using a [THEN conjunct1] by simp
  also have "\<dots> = Some (Num 5)" by code_simp
  finally have 1: "readDuration ''5msXYZ'' (Some 10000) = Some (Num 5)" .
  have "readDuration ''abc5ms'' None = capped (parseInt ''abc5ms'') None"
    using b [THEN conjunct1] by simp
  also have "\<dots> = Some NaN" by code_simp
  finally have 2: "readDuration ''abc5ms'' None = Some NaN" .
  have "attributeOf ?audio ''clipBegin'' = Inr (Str ''abc5ms'')" by code_simp
  then have 3: "audioAttribute ''google'' ?audio ''clipBegin'' [] = Normal []"
    using b [THEN conjunct2, THEN conjunct2] by simp
  from 1 2 3 show ?thesis by blast
qed

subsection \<open>The schema pass pushes Tag errors only\<close>

lemma onlyTags_Normal [simp]: "onlyTags errors (Normal errors)"
  by (simp add: onlyTags_def)

lemma onlyTags_Thrown [simp]: "onlyTags errors (Thrown f errors)"
  by (simp add: onlyTags_def)

lemma onlyTags_illegal [simp]: "onlyTags errors (Normal (errors @ [(plain ''tag'')\<lparr>tag := t\<rparr>]))"
  by (simp add: onlyTags_def plain_def)

lemma onlyTags_trans:
  "onlyTags a out1 \<Longrightarrow> onlyTags (errorsOf out1) out2 \<Longrightarrow> onlyTags a out2"
  by (auto simp add: onlyTags_def)

lemma onlyTags_push [simp]: "onlyTags errors (push (createTagError element attribute u) errors)"
  by (auto simp add: onlyTags_def push_def createTagError_def split: sum.splits)

lemma onlyTags_pushIf [simp]:
  "onlyTags errors (pushIf c (createTagError element attribute u) errors)"
  by (simp add: pushIf_def split: sum.split)

lemma onlyTags_forEach:
  "(\<And>x e. x \<in> set xs \<Longrightarrow> onlyTags e (f x e)) \<Longrightarrow> onlyTags errors (forEach xs f errors)"
proof (induction xs arbitrary: errors)
  case Nil
  then show ?case by simp
next
  case (Cons x xs)
  have step: "onlyTags errors (f x errors)" using Cons.prems by simp
  show ?case
  proof (cases "f x errors")
    case (Normal errors')
    have "onlyTags errors' (forEach xs f errors')" using Cons by simp
    with step Normal show ?thesis using onlyTags_trans [of errors "f x errors"] by simp
  next
    case (Thrown t errors')
    with step show ?thesis by simp
  qed
qed

lemma onlyTags_required: "onlyTags errors out \<Longrightarrow> onlyTags errors (required element out)"
proof (cases out)
  case (Normal es)
  assume a: "onlyTags errors out"
  have "onlyTags es (required element (Normal es))" by (simp add: required_def)
  with a Normal show ?thesis using onlyTags_trans [of errors out] by simp
next
  case (Thrown f es)
  assume "onlyTags errors out"
  with Thrown show ?thesis by (simp add: required_def)
qed

lemma onlyTags_attribute [simp]:
  "onlyTags e (amazonEffectAttribute element a e)"
  "onlyTags e (audioAttribute p element a e)"
  "onlyTags e (breakAttribute element a e)"
  "onlyTags e (emphasisAttribute p element a e)"
  "onlyTags e (langAttribute element a e)"
  "onlyTags e (mediaAttribute element a e)"
  "onlyTags e (noAttribute element a e)"
  "onlyTags e (phonemeAttribute element a e)"
  "onlyTags e (prosodyAttribute pf element a e)"
  "onlyTags e (sayAsAttribute p element a e)"
  "onlyTags e (subAttribute element a e)"
  "onlyTags e (voiceAttribute element a e)"
  "onlyTags e (wAttribute element a e)"
  by (simp_all add: amazonEffectAttribute_def audioAttribute_def breakAttribute_def
      emphasisAttribute_def langAttribute_def mediaAttribute_def noAttribute_def
      phonemeAttribute_def prosodyAttribute_def sayAsAttribute_def subAttribute_def
      voiceAttribute_def wAttribute_def split: sum.split)

lemma onlyTags_parSeqChild [simp]: "onlyTags e (parSeqChild element item e)"
  by (simp add: parSeqChild_def attributeUnbound_def)

lemma onlyTags_checkAttributes: "onlyTags errors (checkAttributes pf errors element p n)"
  unfolding checkAttributes_def
  by (simp add: onlyTags_forEach onlyTags_required split: option.split)

lemma onlyTags_checkTag: "onlyTags errors (checkTag pf errors element p)"
  by (simp add: checkTag_def onlyTags_checkAttributes split: option.split)

lemma onlyTags_checkForValidTags: "onlyTags errors (checkForValidTags pf errors element p)"
proof (induction pf errors element p rule: checkForValidTags.induct)
  case (1 pf errors n a es p)
  let ?e = "Element n a es"
  have tag: "onlyTags errors (checkTag pf errors ?e p)" by (rule onlyTags_checkTag)
  show ?case
  proof (cases "checkTag pf errors ?e p")
    case (Thrown f errors')
    with tag show ?thesis by simp
  next
    case (Normal errors')
    show ?thesis
    proof (cases es)
      case None
      with tag Normal show ?thesis by simp
    next
      case (Some items)
      have "onlyTags errors' (forEach items (\<lambda>item e. checkForValidTags pf e item p) errors')"
        by (rule onlyTags_forEach) (use 1 Normal Some in simp)
      with tag Normal Some show ?thesis
        using onlyTags_trans [of errors "checkTag pf errors ?e p"] by simp
    qed
  qed
qed


subsection \<open>Audio errors per stream\<close>







text \<open>
  How the three tests read the texts of a probe. \<open>parseInt\<close> reads the leading integer
  of the sample rate; the bit rate and the duration are compared as numbers, so that
  \<open>48000.0\<close> is 48000 and \<open>240.024000\<close> is over 240 while \<open>240.000000\<close> is not; a
  value that the probe leaves out is no legal sample rate, differs from 48000 and is not
  over 240.
\<close>

lemma stream_tests_examples:
  "unlistedRate (Str ''44100'') \<and> \<not> unlistedRate (Str ''22050'') \<and>
   \<not> unlistedRate (Str ''22050.5'') \<and> unlistedRate Undefined \<and>
   \<not> not48000 (Str ''48000'') \<and> \<not> not48000 (Str ''48000.0'') \<and>
   not48000 (Str ''128000'') \<and> not48000 Undefined \<and>
   over240 (Str ''240.024000'') \<and> \<not> over240 (Str ''240.000000'') \<and>
   \<not> over240 (Str ''10.000000'') \<and> \<not> over240 Undefined"
  by code_simp

text \<open>
  A stream that breaks all three constraints, with a duration between 240 and 241
  seconds, and a stream of which the probe reports the sample rate only.
\<close>

lemma streamErrors_examples:
  "streamErrors ''https://x.example/a.mp3''
     \<lparr>sample_rate = Str ''44100'', bit_rate = Str ''128000'', duration = Str ''240.024000''\<rparr> =
     [audioError ''https://x.example/a.mp3'' ''Invalid bit rate 44100 Hz'',
      audioError ''https://x.example/a.mp3'' ''Invalid bit rate 128000'',
      audioError ''https://x.example/a.mp3'' ''Invalid duration 240.024000 Hz''] \<and>
   streamErrors ''https://x.example/a.mp3''
     \<lparr>sample_rate = Str ''44100'', bit_rate = Undefined, duration = Undefined\<rparr> =
     [audioError ''https://x.example/a.mp3'' ''Invalid bit rate 44100 Hz'',
      audioError ''https://x.example/a.mp3'' ''Invalid bit rate undefined'']"
  by code_simp




subsection \<open>Audio files: extraction and the limit of five\<close>

lemma concatEach_Inr:
  "(\<And>x. x \<in> set xs \<Longrightarrow> f x = Inr (g x)) \<Longrightarrow> concatEach f xs files = Inr (files @ concat (map g xs))"
  by (induction xs arbitrary: files) auto

lemma audioElements_children:
  "n \<noteq> Some ''audio'' \<Longrightarrow>
   audioElements (Element n a (Some items)) = concat (map audioElements items)"
  by (induction items) (simp_all add: audioElements_def)

lemma audioSources_children:
  "n \<noteq> Some ''audio'' \<Longrightarrow>
   audioSources (Element n a (Some items)) = concat (map audioSources items)"
  by (induction items) (simp_all add: audioSources_def audioElements_children)

lemma audioElements_self:
  "Element (Some ''audio'') a es \<in> set (audioElements (Element (Some ''audio'') a es))"
  by (simp add: audioElements_def)

lemma getAudioFiles_sources:
  assumes "list_all childless (audioElements e)"
    and "list_all (\<lambda>x. attributes x \<noteq> None) (audioElements e)"
  shows "getAudioFiles e = Inr (audioSources e)"
  using assms
proof (induction e rule: getAudioFiles.induct)
  case (1 n a es)
  show ?case
  proof (cases es)
    case None
    show ?thesis
    proof (cases "n = Some ''audio''")
      case True
      with None "1.prems"(2) have "a \<noteq> None"
        by (simp add: audioElements_def)
      with None True show ?thesis
        by (auto simp add: audioSources_def audioElements_def srcOf_def split: option.split)
    next
      case False
      with None show ?thesis by (simp add: audioSources_def audioElements_def)
    qed
  next
    case (Some items)
    have notaudio: "n \<noteq> Some ''audio''"
    proof
      assume "n = Some ''audio''"
      with "1.prems"(1) Some audioElements_self [of a es] show False
        by (auto simp add: list_all_iff childless_def)
    qed
    have each: "getAudioFiles item = Inr (audioSources item)" if "item \<in> set items" for item
    proof (rule "1.IH" [OF Some that])
      from "1.prems"(1) notaudio Some that show "list_all childless (audioElements item)"
        by (auto simp add: audioElements_children list_all_iff)
      from "1.prems"(2) notaudio Some that
      show "list_all (\<lambda>x. attributes x \<noteq> None) (audioElements item)"
        by (auto simp add: audioElements_children list_all_iff)
    qed
    from Some notaudio concatEach_Inr [of items getAudioFiles audioSources "[]", OF each]
    show ?thesis by (simp add: audioSources_children)
  qed
qed

lemma checkTag_audio:
  "checkTag pf errors (Element (Some ''audio'') None es) p = Thrown TypeError errors"
  by (simp add: checkTag_def validTags_def checkAttributes_def attributeNames_def required_def
      createTagError_def attributeOf_def push_def)

lemma forEach_Normal_each:
  "forEach xs f errors = Normal out \<Longrightarrow> x \<in> set xs \<Longrightarrow> \<exists>e e'. f x e = Normal e'"
proof (induction xs arbitrary: errors)
  case Nil
  then show ?case by simp
next
  case (Cons y ys)
  then show ?case by (cases "f y errors") auto
qed

lemma audioElements_node:
  "audioElements (Element n a es) =
     (if n = Some ''audio'' then [Element n a es] else []) @
     (case es of None \<Rightarrow> [] | Some items \<Rightarrow> concat (map audioElements items))"
proof (cases es)
  case None
  then show ?thesis by (simp add: audioElements_def)
next
  case (Some items)
  have "filter (\<lambda>x. name x = Some ''audio'') (concat (map nodes items)) =
        concat (map audioElements items)"
    by (induction items) (simp_all add: audioElements_def)
  with Some show ?thesis by (simp add: audioElements_def)
qed

lemma schema_pass_audio_attributes:
  "checkForValidTags pf errors e p = Normal out \<Longrightarrow>
   list_all (\<lambda>x. attributes x \<noteq> None) (audioElements e)"
proof (induction pf errors e p arbitrary: out rule: checkForValidTags.induct)
  case (1 pf errors n a es p)
  from "1.prems" obtain errors' where tag: "checkTag pf errors (Element n a es) p = Normal errors'"
    by (cases "checkTag pf errors (Element n a es) p") simp_all
  have self: "a \<noteq> None" if "n = Some ''audio''"
  proof
    assume "a = None"
    with that tag checkTag_audio [of pf errors es p] show False by simp
  qed
  have kids: "list_all (\<lambda>x. attributes x \<noteq> None) (audioElements item)"
    if "es = Some items" "item \<in> set items" for items item
  proof -
    from "1.prems" tag that(1)
    have "forEach items (\<lambda>item e. checkForValidTags pf e item p) errors' = Normal out"
      by simp
    from forEach_Normal_each [OF this that(2)]
    obtain e e' where "checkForValidTags pf e item p = Normal e'" by blast
    with "1.IH" [OF tag that] show ?thesis by blast
  qed
  show ?case
  proof (cases es)
    case None
    with self show ?thesis by (simp add: audioElements_node)
  next
    case (Some items)
    with self kids [OF Some] show ?thesis
      by (auto simp add: audioElements_node list_all_iff)
  qed
qed

lemma check_after_pass:
  assumes "platformOf opts \<in> set [''all'', ''amazon'', ''google'']"
    and "xml2json ssml = Some (Some [speech])"
    and "name speech = Some ''speak''"
    and "checkForValidTags parseFloat [] speech (platformOf opts) = Normal errors"
    and "getAudioFiles speech = Inr audio"
    and "5 < length audio"
  shows "\<exists>r. check xml2json ffprobe parseFloat ssml opts = Resolved (Some r) \<and>
             plain ''Too many audio files'' \<in> set r"
proof -
  have block: "tryBlock xml2json ffprobe parseFloat ssml opts =
          validate ffprobe parseFloat speech (platformOf opts) (wantsAudio opts)"
    using assms(1-3) by (rule tryBlock_validate)
  show ?thesis
  proof (cases "validateEach ffprobe audio")
    case (Inl f)
    with block assms(4-6) show ?thesis
      by (cases "wantsAudio opts")
        (simp_all add: check_def validate_def countAudio_def orUndefined_def)
  next
    case (Inr promises)
    then obtain xs where "promiseAll promises = Resolved xs"
      using promiseAll_validateEach by blast
    with block assms(4-6) Inr show ?thesis
      by (cases "wantsAudio opts")
        (simp_all add: check_def validate_def countAudio_def orUndefined_def)
  qed
qed

lemma audio_with_children_is_skipped:
  "getAudioFiles (speak [Element (Some ''audio'') (Some [(''src'', ''https://x.example/a.mp3'')])
                           (Some [textNode])]) = Inr []"
  by code_simp

text \<open>
  C4, as the claim states it, fails. A document with six \<open>audio\<close> elements that carry
  no \<open>src\<close> (legal under platform google) gives no error at all: the code counts
  \<open>src\<close> values, not elements. A document with six \<open>audio\<close> elements that carry a
  \<open>src\<close> and enclose a text gives no error either: the extraction only descends into
  an element that has children, and returns no \<open>src\<close> for it.
\<close>

theorem six_audio_elements_no_error:
  "length (audioElements sixWithoutSrc) = 6 \<and>
   check (adapterFor sixWithoutSrcText sixWithoutSrc) noProbe zeroFloat sixWithoutSrcText
     (Some \<lparr>platform = Some ''google'', validateAudioFiles = False\<rparr>) = Resolved None \<and>
   length (audioElements sixWithText) = 6 \<and>
   getAudioFiles sixWithText = Inr [] \<and>
   check (adapterFor sixWithTextText sixWithText) noProbe zeroFloat sixWithTextText None =
     Resolved None"
  by code_simp

text \<open>
  C4, amended. Take a document with a legal platform that parses to a single \<open>speak\<close>
  element, on which the schema pass returns without a fault, and whose \<open>audio\<close> elements
  have no children. Then the extraction returns the non-empty \<open>src\<close> values of all
  \<open>audio\<close> elements of the tree, in document order and with duplicates kept; and when
  there are more than five of them the result of \<open>check\<close> contains the
  \<open>Too many audio files\<close> error, whatever the options say about audio validation.
\<close>

theorem too_many_audio_files:
  assumes "platformOf opts \<in> set [''all'', ''amazon'', ''google'']"
    and "xml2json ssml = Some (Some [speech])"
    and "name speech = Some ''speak''"
    and "checkForValidTags parseFloat [] speech (platformOf opts) = Normal errors"
    and "list_all childless (audioElements speech)"
  shows "getAudioFiles speech = Inr (audioSources speech) \<and>
         (5 < length (audioSources speech) \<longrightarrow>
          (\<exists>r. check xml2json ffprobe parseFloat ssml opts = Resolved (Some r) \<and>
               plain ''Too many audio files'' \<in> set r))"
proof -
  have extraction: "getAudioFiles speech = Inr (audioSources speech)"
    using assms(5) schema_pass_audio_attributes [OF assms(4)] by (rule getAudioFiles_sources)
  show ?thesis
  proof (cases "length (audioSources speech) \<le> 5")
    case True
    with extraction show ?thesis by simp
  next
    case False
    then have "5 < length (audioSources speech)" by simp
    from check_after_pass [where xml2json = xml2json and ssml = ssml, OF assms(1-4) extraction this]
      extraction
    show ?thesis by blast
  qed
qed

theorem too_many_audio_files_witness:
  "getAudioFiles sixFiles = Inr (replicate 6 ''https://x.example/a.mp3'') \<and>
   (\<exists>r. check (adapterFor sixFilesText sixFiles) noProbe zeroFloat sixFilesText
          (Some \<lparr>platform = None, validateAudioFiles = True\<rparr>) = Resolved (Some r) \<and>
        plain ''Too many audio files'' \<in> set r)"
proof -
  let ?opts = "Some \<lparr>platform = None, validateAudioFiles = True\<rparr>"
  have valid: "platformOf ?opts \<in> set [''all'', ''amazon'', ''google'']" by code_simp
  have parse: "adapterFor sixFilesText sixFiles sixFilesText = Some (Some [sixFiles])"
    by (simp add: adapterFor_def)
  have root: "name sixFiles = Some ''speak''" by (simp add: sixFiles_def speak_def)
  have pass: "checkForValidTags zeroFloat [] sixFiles (platformOf ?opts) = Normal []" by code_simp
  have leaves: "list_all childless (audioElements sixFiles)" by code_simp
  have sources: "audioSources sixFiles = replicate 6 ''https://x.example/a.mp3''" by code_simp
  have six: "5 < length (replicate 6 ''https://x.example/a.mp3'')" by simp
  from too_many_audio_files [where xml2json = "adapterFor sixFilesText sixFiles"
      and ssml = sixFilesText and ffprobe = noProbe, OF valid parse root pass leaves] sources six
  show ?thesis by simp
qed

subsection \<open>Faults are caught by check\<close>

lemma schema_pass_no_unknown:
  "list_all (\<lambda>e. type e \<noteq> ''unknown error'') (errorsOf (checkForValidTags pf [] e p))"
  using onlyTags_checkForValidTags [of "[]" pf e p]
  by (auto simp add: onlyTags_def list_all_iff)

lemma countAudio_no_unknown:
  "list_all (\<lambda>e. type e \<noteq> ''unknown error'') errors \<Longrightarrow>
   list_all (\<lambda>e. type e \<noteq> ''unknown error'') (countAudio errors audio)"
  by (simp add: countAudio_def plain_def)

lemma validateEach_raises:
  "list_ex (\<lambda>file. matches mp3Pattern file \<and> isl (ffprobe file)) audio \<Longrightarrow>
   \<exists>f. validateEach ffprobe audio = Inl f"
proof (induction audio)
  case Nil
  then show ?case by simp
next
  case (Cons src others)
  show ?case
  proof (cases "validateAudio ffprobe src")
    case (Inl f)
    then show ?thesis by simp
  next
    case (Inr promise)
    then have "\<not> (matches mp3Pattern src \<and> isl (ffprobe src))"
      by (auto simp add: validateAudio_def split: sum.splits)
    with Cons.prems have "list_ex (\<lambda>file. matches mp3Pattern file \<and> isl (ffprobe file)) others"
      by simp
    from Cons.IH [OF this] Inr show ?thesis by auto
  qed
qed

lemma concatEach_total:
  "(\<And>x. x \<in> set xs \<Longrightarrow> \<exists>r. f x = Inr r) \<Longrightarrow> \<exists>r. concatEach f xs files = Inr r"
proof (induction xs arbitrary: files)
  case Nil
  then show ?case by simp
next
  case (Cons x xs)
  from Cons.prems [of x] obtain r where "f x = Inr r" by auto
  moreover from Cons.IH [of "files @ r"] Cons.prems
  obtain r' where "concatEach f xs (files @ r) = Inr r'" by auto
  ultimately show ?case by simp
qed

lemma nodes_children:
  "item \<in> set items \<Longrightarrow> set (nodes item) \<subseteq> set (nodes (Element n a (Some items)))"
  by auto

lemma getAudioFiles_total:
  "list_all (\<lambda>x. attributes x \<noteq> None) (audioElements e) \<Longrightarrow> \<exists>audio. getAudioFiles e = Inr audio"
proof (induction e rule: getAudioFiles.induct)
  case (1 n a es)
  show ?case
  proof (cases es)
    case None
    show ?thesis
    proof (cases "n = Some ''audio''")
      case True
      with "1.prems" have "a \<noteq> None" by (simp add: audioElements_def)
      with None True show ?thesis by (auto split: option.split)
    next
      case False
      with None show ?thesis by simp
    qed
  next
    case (Some items)
    have "\<exists>r. getAudioFiles item = Inr r" if "item \<in> set items" for item
    proof (rule "1.IH" [OF Some that])
      from nodes_children [OF that, of n a] have
        "set (audioElements item) \<subseteq> set (audioElements (Element n a (Some items)))"
        unfolding audioElements_def by auto
      with "1.prems" Some show "list_all (\<lambda>x. attributes x \<noteq> None) (audioElements item)"
        unfolding list_all_iff by blast
    qed
    from concatEach_total [of items getAudioFiles "[]", OF this] Some show ?thesis by simp
  qed
qed

text \<open>
  C8. \<open>check\<close> always resolves: no fault and no rejection reaches the caller. Take a
  text that parses to a single \<open>speak\<close> element under a legal platform (before that no
  fault is left to the outer handler). A fault of the schema pass is reported: the result
  is the array as it stood at the fault followed by one \<open>unknown error\<close> record, the only
  record of that type. When the schema pass returns, the extraction returns too. When
  audio validation is requested and the call of the probe raises for one of the references
  of the \<open>https ... .mp3\<close> shape, that fault is reported in the same way, after the
  errors of the schema pass and after \<open>Too many audio files\<close> if more than five
  references were counted.
\<close>

theorem fault_is_reported_as_unknown_error:
  "(\<exists>r. check xml2json ffprobe parseFloat ssml opts = Resolved r) \<and>
   (platformOf opts \<in> set [''all'', ''amazon'', ''google''] \<and>
    xml2json ssml = Some (Some [speech]) \<and> name speech = Some ''speak'' \<longrightarrow>
      (case checkForValidTags parseFloat [] speech (platformOf opts) of
         Thrown f errors \<Rightarrow>
           reportsFault (check xml2json ffprobe parseFloat ssml opts) errors
       | Normal errors \<Rightarrow>
           (\<exists>audio. getAudioFiles speech = Inr audio \<and>
              (wantsAudio opts \<and>
               list_ex (\<lambda>file. matches mp3Pattern file \<and> isl (ffprobe file)) audio \<longrightarrow>
               reportsFault (check xml2json ffprobe parseFloat ssml opts)
                 (countAudio errors audio)))))"
proof -
  let ?result = "check xml2json ffprobe parseFloat ssml opts"
  let ?pass = "checkForValidTags parseFloat [] speech (platformOf opts)"
  have settled: "\<exists>r. ?result = Resolved r"
    using tryBlock_cases [of xml2json ffprobe parseFloat ssml opts]
    by (auto simp add: check_def)
  have caught: "case ?pass of
         Thrown f errors \<Rightarrow> reportsFault ?result errors
       | Normal errors \<Rightarrow>
           (\<exists>audio. getAudioFiles speech = Inr audio \<and>
              (wantsAudio opts \<and>
               list_ex (\<lambda>file. matches mp3Pattern file \<and> isl (ffprobe file)) audio \<longrightarrow>
               reportsFault ?result (countAudio errors audio)))"
    if valid: "platformOf opts \<in> set [''all'', ''amazon'', ''google'']"
      and parse: "xml2json ssml = Some (Some [speech])"
      and root: "name speech = Some ''speak''"
  proof -
    have block: "tryBlock xml2json ffprobe parseFloat ssml opts =
        validate ffprobe parseFloat speech (platformOf opts) (wantsAudio opts)"
      using valid parse root by (rule tryBlock_validate)
    have clean: "list_all (\<lambda>e. type e \<noteq> ''unknown error'') (errorsOf ?pass)"
      by (rule schema_pass_no_unknown)
    show ?thesis
    proof (cases ?pass)
      case (Thrown f errors)
      with block clean show ?thesis
        by (simp add: check_def validate_def reportsFault_def orUndefined_def)
    next
      case (Normal errors)
      from schema_pass_audio_attributes [OF Normal] obtain audio where
        audio: "getAudioFiles speech = Inr audio"
        using getAudioFiles_total by blast
      have "reportsFault ?result (countAudio errors audio)"
        if wanted: "wantsAudio opts"
          and broken: "list_ex (\<lambda>file. matches mp3Pattern file \<and> isl (ffprobe file)) audio"
      proof -
        from validateEach_raises [OF broken] obtain f where
          "validateEach ffprobe audio = Inl f" by blast
        with block Normal audio wanted have
          "?result = Resolved (Some (countAudio errors audio @ [plain ''unknown error'']))"
          by (simp add: check_def validate_def orUndefined_def)
        moreover from clean Normal have
          "list_all (\<lambda>e. type e \<noteq> ''unknown error'') (countAudio errors audio)"
          by (simp add: countAudio_no_unknown)
        ultimately show ?thesis by (simp add: reportsFault_def)
      qed
      with Normal audio show ?thesis by simp
    qed
  qed
  from settled caught show ?thesis by blast
qed

theorem fault_is_reported_as_unknown_error_witness:
  "check (adapterFor ''<speak><w/><emphasis>hi</emphasis></speak>''
              (speak [Element (Some ''w'') None None,
                      Element (Some ''emphasis'') None (Some [textNode])]))
     noProbe zeroFloat ''<speak><w/><emphasis>hi</emphasis></speak>'' None =
     Resolved (Some [(plain ''tag'')\<lparr>tag := Some (Str ''w'')\<rparr>, plain ''unknown error'']) \<and>
   check (adapterFor sixFilesText sixFiles) brokenProbe zeroFloat sixFilesText
     (Some \<lparr>platform = None, validateAudioFiles = True\<rparr>) =
     Resolved (Some [plain ''Too many audio files'', plain ''unknown error''])"
proof -
  let ?text = "''<speak><w/><emphasis>hi</emphasis></speak>''"
  let ?tree = "speak [Element (Some ''w'') None None,
                      Element (Some ''emphasis'') None (Some [textNode])]"
  let ?opts = "Some \<lparr>platform = None, validateAudioFiles = True\<rparr>"
  have valid: "platformOf None \<in> set [''all'', ''amazon'', ''google'']" by code_simp
  have parse: "adapterFor ?text ?tree ?text = Some (Some [?tree])" by (simp add: adapterFor_def)
  have root: "name ?tree = Some ''speak''" by (simp add: speak_def)
  have pass: "checkForValidTags zeroFloat [] ?tree (platformOf None) =
      Thrown TypeError [(plain ''tag'')\<lparr>tag := Some (Str ''w'')\<rparr>]"
    by code_simp
  note caught = fault_is_reported_as_unknown_error [of "adapterFor ?text ?tree" noProbe
      zeroFloat ?text None ?tree, THEN conjunct2, THEN mp, OF conjI [OF valid conjI [OF parse root]]]
  from caught have first: "check (adapterFor ?text ?tree) noProbe zeroFloat ?text None =
      Resolved (Some [(plain ''tag'')\<lparr>tag := Some (Str ''w'')\<rparr>, plain ''unknown error''])"
    unfolding pass by (simp add: reportsFault_def)
  have valid': "platformOf ?opts \<in> set [''all'', ''amazon'', ''google'']" by code_simp
  have parse': "adapterFor sixFilesText sixFiles sixFilesText = Some (Some [sixFiles])"
    by (simp add: adapterFor_def)
  have root': "name sixFiles = Some ''speak''" by (simp add: sixFiles_def speak_def)
  have pass': "checkForValidTags zeroFloat [] sixFiles (platformOf ?opts) = Normal []"
    by code_simp
  have files: "getAudioFiles sixFiles = Inr (replicate 6 ''https://x.example/a.mp3'')"
    by code_simp
  have wanted: "wantsAudio ?opts" by (simp add: wantsAudio_def)
  have broken: "list_ex (\<lambda>file. matches mp3Pattern file \<and> isl (brokenProbe file))
      (replicate 6 ''https://x.example/a.mp3'')"
    by code_simp
  have counted: "countAudio [] (replicate 6 ''https://x.example/a.mp3'') =
      [plain ''Too many audio files'']"
    by code_simp
  note caught' = fault_is_reported_as_unknown_error [of "adapterFor sixFilesText sixFiles"
      brokenProbe zeroFloat sixFilesText ?opts sixFiles, THEN conjunct2, THEN mp,
      OF conjI [OF valid' conjI [OF parse' root']]]
  from caught' files wanted broken counted have second: "check (adapterFor sixFilesText sixFiles) brokenProbe zeroFloat sixFilesText ?opts =
      Resolved (Some [plain ''Too many audio files'', plain ''unknown error''])"
    unfolding pass' by (simp add: reportsFault_def)
  from first second show ?thesis by blast
qed

end
